theory Spec2Isabelle
  imports Main "HOL-Library.AList"
begin

section \<open>Values, errors and the persisted state\<close>

text \<open>
  The serializers of \<^verbatim>\<open>restshop/serializers.py\<close> return Python primitives:
  \<^verbatim>\<open>None\<close>, numbers, strings, lists and (ordered) dictionaries. They are the
  values of type \<open>json\<close>. A dictionary is an association list, in insertion order.
\<close>

datatype json =
    JNull
  | JNum int
  | JStr string
  | JList "json list"
  | JObj "(string \<times> json) list"

text \<open>
  The exceptions the code raises or lets through. \<open>ObjectDoesNotExist\<close> is the one the
  source catches; \<open>MultipleObjectsReturned\<close> is the other outcome of a manager's
  \<^verbatim>\<open>get\<close> and is not a subclass of it. \<open>ValidationError\<close> carries the message
  \<^verbatim>\<open>validate\<close> raises; \<open>FieldErrors\<close> is the validation error the framework
  raises when fields refuse their input, with the refused fields and their messages.
  \<open>ImportError\<close> names the module that could not be imported.
\<close>

datatype error =
    ObjectDoesNotExist
  | MultipleObjectsReturned
  | IntegrityError
  | ImproperlyConfigured
  | ValidationError string
  | FieldErrors "(string \<times> string) list"
  | ImportError string
  | FileNotFoundError

text \<open>Sequencing of computations that may raise.\<close>

definition bind_result :: "error + 'a \<Rightarrow> ('a \<Rightarrow> error + 'b) \<Rightarrow> error + 'b" where
  "bind_result m f = (case m of Inl e \<Rightarrow> Inl e | Inr x \<Rightarrow> f x)"

fun map_result :: "('a \<Rightarrow> error + 'b) \<Rightarrow> 'a list \<Rightarrow> error + 'b list" where
  "map_result f [] = Inr []"
| "map_result f (x # xs) =
     bind_result (f x) (\<lambda>y. bind_result (map_result f xs) (\<lambda>ys. Inr (y # ys)))"

text \<open>
  Modelled from the spec: the models of \<^verbatim>\<open>restshop/models.py\<close> and of the
  framework's \<^verbatim>\<open>auth\<close> application, which are not among the sources. The rows
  of their tables carry the attributes the serializers read, with the relations of the
  spec's data model: a foreign key is the primary key of the row it refers to, and a
  many-to-many relation is a list of such keys or a table of pairs of keys. Amounts of
  money are exact numbers: a price is an integer count of the smallest currency unit.
\<close>

record product =
  product_id :: nat
  title :: string
  description :: string

record tag =
  tag_name :: string
  tag_products :: "nat list"

record unit_row =
  unit_id :: nat
  unit_product :: nat
  sku :: string
  price :: int
  num_in_stock :: int

record unitimage =
  image_id :: nat
  image_unit :: nat
  image_url :: string
  is_main :: bool

record property =
  property_id :: nat
  property_name :: string

record propertyvalue =
  value_id :: nat
  value_property :: nat
  value_value :: string
  value_units :: "nat list"

record order_row =
  order_id :: nat
  created_at :: string
  order_name :: string
  order_address :: string
  order_phone :: string

record orderunit =
  orderunit_id :: nat
  orderunit_order :: nat
  orderunit_unit :: nat
  quantity :: int
  status :: nat
  unit_price :: int

record permission =
  permission_id :: nat
  codename :: string

record group_row =
  group_id :: nat
  group_name :: string

record user =
  user_id :: nat
  username :: string
  email :: string
  password :: string

record seller =
  seller_user :: nat
  seller_name :: string
  seller_address :: string

record db =
  products :: "product list"
  tags :: "tag list"
  units :: "unit_row list"
  unitimages :: "unitimage list"
  properties :: "property list"
  propertyvalues :: "propertyvalue list"
  orders :: "order_row list"
  orderunits :: "orderunit list"
  permissions :: "permission list"
  groups :: "group_row list"
  group_permissions :: "(nat \<times> nat) list"
  users :: "user list"
  user_groups :: "(nat \<times> nat) list"
  sellers :: "seller list"
  row_order :: "unitimage list \<Rightarrow> unitimage list"

text \<open>
  The last field is the database engine's part in an ordered query: the order in which
  it hands over rows that the query's \<^verbatim>\<open>ORDER BY\<close> does not tell apart. The code
  does not fix that order, so nothing is known of \<open>row_order\<close> but that it
  rearranges the rows it is given.
\<close>

subsection \<open>Query sets\<close>

text \<open>
  A query set is the list of its rows, in the order the table stores them.
  \<^verbatim>\<open>Manager.get\<close> returns the single matching row, raises \<open>ObjectDoesNotExist\<close>
  when none matches and \<open>MultipleObjectsReturned\<close> when several do.
\<close>

definition objects_get :: "('a \<Rightarrow> bool) \<Rightarrow> 'a list \<Rightarrow> error + 'a" where
  "objects_get P rows =
     (case filter P rows of
        [] \<Rightarrow> Inl ObjectDoesNotExist
      | [x] \<Rightarrow> Inr x
      | _ \<Rightarrow> Inl MultipleObjectsReturned)"

text \<open>\<^verbatim>\<open>QuerySet.first\<close> of a query set that has an ordering: its first row, or \<^verbatim>\<open>None\<close>.\<close>

definition first_row :: "'a list \<Rightarrow> 'a option" where
  "first_row rows = (case rows of [] \<Rightarrow> None | x # _ \<Rightarrow> Some x)"

text \<open>
  \<^verbatim>\<open>QuerySet.first\<close> of a query set without an ordering sorts by primary key first.
\<close>

definition first_by_pk :: "('a \<Rightarrow> nat) \<Rightarrow> 'a list \<Rightarrow> 'a option" where
  "first_by_pk pk rows = first_row (sort_key pk rows)"

text \<open>
  \<^verbatim>\<open>order_by('-is_main')\<close>: descending in the flag, so flagged rows come first. The
  order among rows with equal flags is the database's: the rows are sorted by the flag
  from the arrangement \<open>row_order\<close> gives them, which the sort keeps among equals.
\<close>

definition order_by_desc_is_main :: "db \<Rightarrow> unitimage list \<Rightarrow> unitimage list" where
  "order_by_desc_is_main d imgs = sort_key (\<lambda>i. \<not> is_main i) (row_order d imgs)"

text \<open>The automatically assigned primary key of a new row.\<close>

definition next_id :: "nat list \<Rightarrow> nat" where
  "next_id ids = Suc (fold max ids 0)"

text \<open>The related managers the serializers use.\<close>

definition unit_set :: "db \<Rightarrow> product \<Rightarrow> unit_row list" where
  "unit_set d p = filter (\<lambda>u. unit_product u = product_id p) (units d)"

definition tag_set :: "db \<Rightarrow> product \<Rightarrow> tag list" where
  "tag_set d p = filter (\<lambda>t. product_id p \<in> set (tag_products t)) (tags d)"

definition unitimage_set :: "db \<Rightarrow> unit_row \<Rightarrow> unitimage list" where
  "unitimage_set d u = filter (\<lambda>i. image_unit i = unit_id u) (unitimages d)"

definition value_set :: "db \<Rightarrow> unit_row \<Rightarrow> propertyvalue list" where
  "value_set d u = filter (\<lambda>v. unit_id u \<in> set (value_units v)) (propertyvalues d)"

definition orderunit_set :: "db \<Rightarrow> order_row \<Rightarrow> orderunit list" where
  "orderunit_set d ord = filter (\<lambda>ou. orderunit_order ou = order_id ord) (orderunits d)"

text \<open>
  Modelled from the spec: the relation behind \<^verbatim>\<open>order.unit_set\<close>, declared in the
  missing \<^verbatim>\<open>models.py\<close>. An order has many order lines and each line refers to a
  unit, so the units of an order are reached through its lines: the query joins the
  line table with the unit table, one row for each pair of a line of the order and the
  unit it refers to.
\<close>

definition order_unit_set :: "db \<Rightarrow> order_row \<Rightarrow> unit_row list" where
  "order_unit_set d ord =
     concat (map (\<lambda>ou. filter (\<lambda>u. unit_id u = orderunit_unit ou) (units d))
                 (orderunit_set d ord))"

section \<open>Serializers\<close>

subsection \<open>TagSerializer\<close>

definition TagSerializer_to_representation :: "tag \<Rightarrow> json" where
  "TagSerializer_to_representation instance = JStr (tag_name instance)"

subsection \<open>UnitSerializer\<close>

definition UnitSerializer_fields :: "string list" where
  "UnitSerializer_fields = [''sku'', ''price'', ''properties'', ''images'', ''num_in_stock'']"

text \<open>
  \<^verbatim>\<open>property_value.property\<close> follows the foreign key; it raises when the row is
  missing.
\<close>

definition property_of :: "db \<Rightarrow> propertyvalue \<Rightarrow> error + property" where
  "property_of d v = objects_get (\<lambda>p. property_id p = value_property v) (properties d)"

definition get_properties :: "db \<Rightarrow> unit_row \<Rightarrow> error + json" where
  "get_properties d obj =
     bind_result
       (map_result
          (\<lambda>property_value.
             bind_result (property_of d property_value)
               (\<lambda>p. Inr (JObj [(''name'', JStr (property_name p)),
                                (''value'', JStr (value_value property_value))])))
          (value_set d obj))
       (\<lambda>xs. Inr (JList xs))"

definition get_images :: "db \<Rightarrow> unit_row \<Rightarrow> json" where
  "get_images d obj =
     (let images = unitimage_set d obj
      in if images \<noteq> [] then JList (map (\<lambda>img. JStr (image_url img)) images)
         else JList [])"

definition UnitSerializer_field :: "db \<Rightarrow> unit_row \<Rightarrow> string \<Rightarrow> error + json" where
  "UnitSerializer_field d obj name =
     (if name = ''properties'' then get_properties d obj
      else if name = ''images'' then Inr (get_images d obj)
      else if name = ''sku'' then Inr (JStr (sku obj))
      else if name = ''price'' then Inr (JNum (price obj))
      else if name = ''num_in_stock'' then Inr (JNum (num_in_stock obj))
      else Inl ImproperlyConfigured)"

text \<open>
  \<^verbatim>\<open>Serializer.to_representation\<close>: one entry for each name of \<^verbatim>\<open>Meta.fields\<close>, in
  that order, holding the value of the field of that name.
\<close>

definition to_representation :: "string list \<Rightarrow> (string \<Rightarrow> error + json) \<Rightarrow> error + json" where
  "to_representation field_names field =
     bind_result
       (map_result (\<lambda>name. bind_result (field name) (\<lambda>v. Inr (name, v))) field_names)
       (\<lambda>kvs. Inr (JObj kvs))"

definition UnitSerializer_to_representation :: "db \<Rightarrow> unit_row \<Rightarrow> error + json" where
  "UnitSerializer_to_representation d obj =
     to_representation UnitSerializer_fields (UnitSerializer_field d obj)"

subsection \<open>ProductListSerializer\<close>

definition ProductListSerializer_fields :: "string list" where
  "ProductListSerializer_fields = [''id'', ''title'', ''tags'', ''prices'', ''image'']"

text \<open>
  \<^verbatim>\<open>aggregate(max=Max('price'), min=Min('price'))\<close>: the aggregate of a column is
  \<^verbatim>\<open>None\<close> over no rows.
\<close>

definition aggregate_Max :: "int list \<Rightarrow> int option" where
  "aggregate_Max column = (case column of [] \<Rightarrow> None | x # xs \<Rightarrow> Some (fold max xs x))"

definition aggregate_Min :: "int list \<Rightarrow> int option" where
  "aggregate_Min column = (case column of [] \<Rightarrow> None | x # xs \<Rightarrow> Some (fold min xs x))"

definition json_of_number :: "int option \<Rightarrow> json" where
  "json_of_number v = (case v of None \<Rightarrow> JNull | Some n \<Rightarrow> JNum n)"

definition get_prices :: "db \<Rightarrow> product \<Rightarrow> json" where
  "get_prices d obj =
     (let prices_max = aggregate_Max (map price (unit_set d obj));
          prices_min = aggregate_Min (map price (unit_set d obj))
      in JObj [(''min'', json_of_number prices_min), (''max'', json_of_number prices_max)])"

text \<open>
  \<^verbatim>\<open>filter(unitimage__isnull=False)\<close> keeps the units that have an image; the query
  set has no ordering, so \<^verbatim>\<open>first\<close> takes the unit of the least primary key.
\<close>

definition get_image :: "db \<Rightarrow> product \<Rightarrow> json" where
  "get_image d obj =
     (case first_by_pk unit_id (filter (\<lambda>u. unitimage_set d u \<noteq> []) (unit_set d obj)) of
        None \<Rightarrow> JNull
      | Some u \<Rightarrow>
          (case first_row (order_by_desc_is_main d (unitimage_set d u)) of
             None \<Rightarrow> JNull
           | Some img \<Rightarrow> JStr (image_url img)))"

text \<open>
  The fields of the class: the declared ones (\<open>tags\<close>, \<open>prices\<close>, \<open>image\<close>) and, for
  any other name, the model's attribute of that name.
\<close>

definition ProductListSerializer_field :: "db \<Rightarrow> product \<Rightarrow> string \<Rightarrow> error + json" where
  "ProductListSerializer_field d obj name =
     (if name = ''tags'' then Inr (JList (map TagSerializer_to_representation (tag_set d obj)))
      else if name = ''prices'' then Inr (get_prices d obj)
      else if name = ''image'' then Inr (get_image d obj)
      else if name = ''id'' then Inr (JNum (int (product_id obj)))
      else if name = ''title'' then Inr (JStr (title obj))
      else if name = ''description'' then Inr (JStr (description obj))
      else Inl ImproperlyConfigured)"

definition ProductListSerializer_to_representation :: "db \<Rightarrow> product \<Rightarrow> error + json" where
  "ProductListSerializer_to_representation d obj =
     to_representation ProductListSerializer_fields (ProductListSerializer_field d obj)"

subsection \<open>ProductSerializer\<close>

text \<open>
  The class inherits the declared fields of \<open>ProductListSerializer\<close>, declares
  \<open>units\<close>, and names the fields of its representation in its own \<^verbatim>\<open>Meta.fields\<close>.
\<close>

definition ProductSerializer_fields :: "string list" where
  "ProductSerializer_fields = [''id'', ''title'', ''tags'', ''description'', ''units'']"

definition ProductSerializer_field :: "db \<Rightarrow> product \<Rightarrow> string \<Rightarrow> error + json" where
  "ProductSerializer_field d obj name =
     (if name = ''units''
      then bind_result (map_result (UnitSerializer_to_representation d) (unit_set d obj))
             (\<lambda>us. Inr (JList us))
      else ProductListSerializer_field d obj name)"

definition ProductSerializer_to_representation :: "db \<Rightarrow> product \<Rightarrow> error + json" where
  "ProductSerializer_to_representation d obj =
     to_representation ProductSerializer_fields (ProductSerializer_field d obj)"

text \<open>The keys of a representation, in order; none when serializing raised.\<close>

definition representation_keys :: "error + json \<Rightarrow> string list" where
  "representation_keys r = (case r of Inr (JObj kvs) \<Rightarrow> map fst kvs | _ \<Rightarrow> [])"

text \<open>The value under a key of a representation.\<close>

definition representation_value :: "error + json \<Rightarrow> string \<Rightarrow> json option" where
  "representation_value r k = (case r of Inr (JObj kvs) \<Rightarrow> map_of kvs k | _ \<Rightarrow> None)"

subsection \<open>SellerSerializer\<close>

record seller_data =
  data_email :: string
  data_password :: string
  data_name :: string
  data_address :: string

text \<open>
  \<^verbatim>\<open>User.objects.create\<close>: a new row with a fresh primary key and no usable password
  yet; user names are unique, so it raises when the name is taken.
\<close>

definition User_objects_create :: "db \<Rightarrow> string \<Rightarrow> string \<Rightarrow> error + user \<times> db" where
  "User_objects_create d mail name =
     (if name \<in> set (map username (users d)) then Inl IntegrityError
      else
        let u = \<lparr>user_id = next_id (map user_id (users d)), username = name, email = mail,
                 password = []\<rparr>
        in Inr (u, d\<lparr>users := users d @ [u]\<rparr>))"

text \<open>
  \<^verbatim>\<open>Group.objects.create(name='Staff')\<close>: a new row with a fresh primary key; group
  names are unique.
\<close>

definition Group_objects_create :: "db \<Rightarrow> string \<Rightarrow> error + group_row \<times> db" where
  "Group_objects_create d name =
     (if name \<in> set (map group_name (groups d)) then Inl IntegrityError
      else
        let g = \<lparr>group_id = next_id (map group_id (groups d)), group_name = name\<rparr>
        in Inr (g, d\<lparr>groups := groups d @ [g]\<rparr>))"

text \<open>Adding to a many-to-many relation stores the pair unless it is there already.\<close>

definition related_add :: "(nat \<times> nat) list \<Rightarrow> nat \<times> nat \<Rightarrow> (nat \<times> nat) list" where
  "related_add table pair = (if pair \<in> set table then table else table @ [pair])"

text \<open>The table \<^verbatim>\<open>content_types\<close> of \<^verbatim>\<open>get_staff_group\<close>, in its order.\<close>

definition all_permissions :: "string list" where
  "all_permissions = [''add'', ''change'', ''delete'']"

definition content_types :: "(string \<times> string list) list" where
  "content_types =
     [(''unit'', all_permissions),
      (''product'', all_permissions),
      (''unitimage'', all_permissions),
      (''orderunit'', all_permissions),
      (''order'', [''change'']),
      (''property'', [''add'']),
      (''propertyvalue'', [''add''])]"

text \<open>
  The code names the two loops go through:
  \<^verbatim>\<open>'{}_{}'.format(permission, content_type)\<close> for each permission of each content type.
\<close>

definition staff_codenames :: "string list" where
  "staff_codenames =
     concat (map (\<lambda>(content_type, perms). map (\<lambda>perm. perm @ ''_'' @ content_type) perms)
                 content_types)"

text \<open>
  The body of the loops: look the permission up by its code name (which raises when
  there is none, or more than one) and add it to the group.
\<close>

fun add_permissions :: "db \<Rightarrow> group_row \<Rightarrow> string list \<Rightarrow> error + db" where
  "add_permissions d grp [] = Inr d"
| "add_permissions d grp (c # cs) =
     bind_result (objects_get (\<lambda>p. codename p = c) (permissions d))
       (\<lambda>perm. add_permissions
          (d\<lparr>group_permissions :=
               related_add (group_permissions d) (group_id grp, permission_id perm)\<rparr>)
          grp cs)"

definition get_staff_group :: "db \<Rightarrow> error + group_row \<times> db" where
  "get_staff_group d =
     (case objects_get (\<lambda>g. group_name g = ''Staff'') (groups d) of
        Inr g \<Rightarrow> Inr (g, d)
      | Inl ObjectDoesNotExist \<Rightarrow>
          bind_result (Group_objects_create d ''Staff'')
            (\<lambda>(grp, d1). bind_result (add_permissions d1 grp staff_codenames)
               (\<lambda>d2. Inr (grp, d2)))
      | Inl e \<Rightarrow> Inl e)"

text \<open>
  \<^verbatim>\<open>SellerSerializer.create\<close>. The password hasher of the framework is a parameter.
  The state after an exception is not modelled: it depends on the transaction the
  caller runs in.
\<close>

definition SellerSerializer_create ::
  "(string \<Rightarrow> string) \<Rightarrow> db \<Rightarrow> seller_data \<Rightarrow> error + user \<times> db" where
  "SellerSerializer_create make_password d validated_data =
     bind_result
       (User_objects_create d (data_email validated_data) (data_email validated_data))
       (\<lambda>(usr, d1).
          bind_result (get_staff_group d1)
            (\<lambda>(staff_group, d2).
               let d3 = d2\<lparr>user_groups :=
                             related_add (user_groups d2) (user_id usr, group_id staff_group)\<rparr>;
                   usr' = usr\<lparr>password := make_password (data_password validated_data)\<rparr>;
                   d4 = d3\<lparr>users := map (\<lambda>x. if user_id x = user_id usr' then usr' else x)
                                         (users d3)\<rparr>;
                   d5 = d4\<lparr>sellers := sellers d4 @
                           [\<lparr>seller_user = user_id usr',
                             seller_name = data_name validated_data,
                             seller_address = data_address validated_data\<rparr>]\<rparr>
               in Inr (usr', d5)))"

text \<open>The code names of the permissions a group has.\<close>

definition group_codenames :: "db \<Rightarrow> group_row \<Rightarrow> string list" where
  "group_codenames d g =
     map codename
       (filter (\<lambda>p. (group_id g, permission_id p) \<in> set (group_permissions d)) (permissions d))"

subsection \<open>OrderListSerializer\<close>

definition OrderListSerializer_fields :: "string list" where
  "OrderListSerializer_fields = [''id'', ''created_at'', ''units_num'']"

definition get_units_num :: "db \<Rightarrow> order_row \<Rightarrow> json" where
  "get_units_num d obj = JNum (int (length (order_unit_set d obj)))"

definition OrderListSerializer_field :: "db \<Rightarrow> order_row \<Rightarrow> string \<Rightarrow> error + json" where
  "OrderListSerializer_field d obj name =
     (if name = ''units_num'' then Inr (get_units_num d obj)
      else if name = ''id'' then Inr (JNum (int (order_id obj)))
      else if name = ''created_at'' then Inr (JStr (created_at obj))
      else Inl ImproperlyConfigured)"

definition OrderListSerializer_to_representation :: "db \<Rightarrow> order_row \<Rightarrow> error + json" where
  "OrderListSerializer_to_representation d obj =
     to_representation OrderListSerializer_fields (OrderListSerializer_field d obj)"

subsection \<open>UnitForOrderDetail\<close>

definition UnitForOrderDetail_fields :: "string list" where
  "UnitForOrderDetail_fields =
     [''title'', ''properties'', ''image'', ''product_id'', ''price'', ''sku'']"

text \<open>
  A field with a dotted \<^verbatim>\<open>source\<close> follows the foreign key of the unit to its
  product; the framework gives \<^verbatim>\<open>None\<close> when the row does not exist.
\<close>

definition product_attribute :: "db \<Rightarrow> unit_row \<Rightarrow> (product \<Rightarrow> json) \<Rightarrow> error + json" where
  "product_attribute d obj attr =
     (case objects_get (\<lambda>p. product_id p = unit_product obj) (products d) of
        Inr p \<Rightarrow> Inr (attr p)
      | Inl ObjectDoesNotExist \<Rightarrow> Inr JNull
      | Inl e \<Rightarrow> Inl e)"

definition UnitForOrderDetail_get_image :: "db \<Rightarrow> unit_row \<Rightarrow> json" where
  "UnitForOrderDetail_get_image d obj =
     (case first_row (order_by_desc_is_main d (unitimage_set d obj)) of
        None \<Rightarrow> JNull
      | Some img \<Rightarrow> JStr (image_url img))"

text \<open>
  \<^verbatim>\<open>UnitForOrderDetail.get_properties\<close> has the text of
  \<^verbatim>\<open>UnitSerializer.get_properties\<close>.
\<close>

definition UnitForOrderDetail_field :: "db \<Rightarrow> unit_row \<Rightarrow> string \<Rightarrow> error + json" where
  "UnitForOrderDetail_field d obj name =
     (if name = ''title'' then product_attribute d obj (\<lambda>p. JStr (title p))
      else if name = ''properties'' then get_properties d obj
      else if name = ''image'' then Inr (UnitForOrderDetail_get_image d obj)
      else if name = ''product_id'' then product_attribute d obj (\<lambda>p. JNum (int (product_id p)))
      else if name = ''price'' then Inr (JNum (price obj))
      else if name = ''sku'' then Inr (JStr (sku obj))
      else Inl ImproperlyConfigured)"

definition UnitForOrderDetail_data :: "db \<Rightarrow> unit_row \<Rightarrow> error + json" where
  "UnitForOrderDetail_data d obj =
     to_representation UnitForOrderDetail_fields (UnitForOrderDetail_field d obj)"

subsection \<open>OrderUnitSerializer\<close>

text \<open>\<^verbatim>\<open>data[key] = value\<close> on the dictionary of a representation.\<close>

definition setitem :: "json \<Rightarrow> string \<Rightarrow> json \<Rightarrow> json" where
  "setitem data k v = (case data of JObj kvs \<Rightarrow> JObj (AList.update k v kvs) | other \<Rightarrow> other)"

text \<open>\<^verbatim>\<open>obj.unit\<close> follows the foreign key of the order line; it raises when the row is missing.\<close>

definition get_unit :: "db \<Rightarrow> orderunit \<Rightarrow> error + json" where
  "get_unit d obj =
     bind_result (objects_get (\<lambda>u. unit_id u = orderunit_unit obj) (units d))
       (\<lambda>u. bind_result (UnitForOrderDetail_data d u)
          (\<lambda>data. Inr (setitem data ''price'' (JNum (unit_price obj)))))"

subsection \<open>CartUnitSerializer\<close>

text \<open>The validated data \<^verbatim>\<open>validate\<close> receives: the values of the two input fields.\<close>

record cart_data =
  cart_sku :: string
  cart_quantity :: int

text \<open>
  \<^verbatim>\<open>str.strip()\<close>: the string without the white space at its two ends. Which
  characters are white space is the language's table, a parameter here.
\<close>

definition str_strip :: "(char \<Rightarrow> bool) \<Rightarrow> string \<Rightarrow> string" where
  "str_strip isspace s = rev (dropWhile isspace (rev (dropWhile isspace s)))"

text \<open>
  \<^verbatim>\<open>sku = CharField(write_only=True)\<close>: a required field of the framework's defaults,
  which strips the input (\<^verbatim>\<open>trim_whitespace\<close>) and refuses a string that is blank
  then (\<^verbatim>\<open>allow_blank=False\<close>). The result is the field's message when it refuses.
\<close>

definition sku_run_validation :: "(char \<Rightarrow> bool) \<Rightarrow> string option \<Rightarrow> string + string" where
  "sku_run_validation isspace v =
     (case v of
        None \<Rightarrow> Inl ''This field is required.''
      | Some data \<Rightarrow>
          if str_strip isspace data = [] then Inl ''This field may not be blank.''
          else Inr (str_strip isspace data))"

text \<open>
  \<^verbatim>\<open>quantity = IntegerField(default=1, min_value=1)\<close>: an absent value becomes the
  default; a value below the minimum is refused with the framework's message.
\<close>

definition quantity_run_validation :: "int option \<Rightarrow> string + int" where
  "quantity_run_validation v =
     (case v of
        None \<Rightarrow> Inr 1
      | Some q \<Rightarrow>
          if q < 1 then Inl ''Ensure this value is greater than or equal to 1.''
          else Inr q)"

definition validate :: "db \<Rightarrow> cart_data \<Rightarrow> error + cart_data" where
  "validate d data =
     (case objects_get (\<lambda>u. sku u = cart_sku data) (units d) of
        Inl ObjectDoesNotExist \<Rightarrow> Inl (ValidationError ''Unit does not exist'')
      | Inl e \<Rightarrow> Inl e
      | Inr u \<Rightarrow>
          if num_in_stock u < cart_quantity data
          then Inl (ValidationError ''There are not enough units in stock'')
          else Inr data)"

text \<open>The entry of a field in the error dictionary: its message, if it refused.\<close>

definition field_error :: "string \<Rightarrow> string + 'a \<Rightarrow> (string \<times> string) list" where
  "field_error name r = (case r of Inl message \<Rightarrow> [(name, message)] | Inr _ \<Rightarrow> [])"

text \<open>
  \<^verbatim>\<open>Serializer.run_validation\<close>: every writable field validates its input, in the
  order of declaration; if one refused, the errors of all are raised together;
  otherwise \<^verbatim>\<open>validate\<close> runs on the values of the fields.
\<close>

definition CartUnitSerializer_run_validation ::
  "(char \<Rightarrow> bool) \<Rightarrow> db \<Rightarrow> string option \<Rightarrow> int option \<Rightarrow> error + cart_data" where
  "CartUnitSerializer_run_validation isspace d sku_input quantity_input =
     (case (sku_run_validation isspace sku_input, quantity_run_validation quantity_input) of
        (Inr s, Inr n) \<Rightarrow> validate d \<lparr>cart_sku = s, cart_quantity = n\<rparr>
      | (sku_result, quantity_result) \<Rightarrow>
          Inl (FieldErrors (field_error ''sku'' sku_result
                            @ field_error ''quantity'' quantity_result)))"

section \<open>Route table\<close>










section \<open>Example data\<close>

text \<open>
  A small shop, used to run the definitions: a shirt in two variants, a hat in one, a
  bag without pictures, one order of two lines, and the permissions of the models.
\<close>

definition shirt :: product where
  "shirt = \<lparr>product_id = 1, title = ''Shirt'', description = ''A cotton shirt''\<rparr>"

definition hat :: product where
  "hat = \<lparr>product_id = 2, title = ''Hat'', description = ''A felt hat''\<rparr>"

definition bag :: product where
  "bag = \<lparr>product_id = 3, title = ''Bag'', description = ''A canvas bag''\<rparr>"

definition shirt_red :: unit_row where
  "shirt_red = \<lparr>unit_id = 1, unit_product = 1, sku = ''SH-RED'', price = 1000, num_in_stock = 3\<rparr>"

definition shirt_blue :: unit_row where
  "shirt_blue = \<lparr>unit_id = 2, unit_product = 1, sku = ''SH-BLUE'', price = 1500, num_in_stock = 0\<rparr>"

definition hat_unit :: unit_row where
  "hat_unit = \<lparr>unit_id = 3, unit_product = 2, sku = ''HAT'', price = 700, num_in_stock = 5\<rparr>"

definition bag_unit :: unit_row where
  "bag_unit = \<lparr>unit_id = 4, unit_product = 3, sku = ''BAG'', price = 2500, num_in_stock = 2\<rparr>"

definition red_picture :: unitimage where
  "red_picture = \<lparr>image_id = 1, image_unit = 1, image_url = ''/media/red.jpg'', is_main = False\<rparr>"

definition blue_picture :: unitimage where
  "blue_picture = \<lparr>image_id = 2, image_unit = 2, image_url = ''/media/blue.jpg'', is_main = True\<rparr>"

definition hat_side :: unitimage where
  "hat_side = \<lparr>image_id = 3, image_unit = 3, image_url = ''/media/hat-side.jpg'', is_main = False\<rparr>"

definition hat_front :: unitimage where
  "hat_front = \<lparr>image_id = 4, image_unit = 3, image_url = ''/media/hat-front.jpg'', is_main = True\<rparr>"

definition first_order :: order_row where
  "first_order = \<lparr>order_id = 1, created_at = ''2017-05-01T10:00:00Z'', order_name = ''Ann'',
     order_address = ''1 Main Street'', order_phone = ''555-0100''\<rparr>"

definition shirt_line :: orderunit where
  "shirt_line = \<lparr>orderunit_id = 1, orderunit_order = 1, orderunit_unit = 1, quantity = 2,
     status = 0, unit_price = 800\<rparr>"

definition hat_line :: orderunit where
  "hat_line = \<lparr>orderunit_id = 2, orderunit_order = 1, orderunit_unit = 3, quantity = 1,
     status = 0, unit_price = 700\<rparr>"

definition staff_permissions :: "permission list" where
  "staff_permissions =
     [\<lparr>permission_id = 1, codename = ''add_unit''\<rparr>,
      \<lparr>permission_id = 2, codename = ''change_unit''\<rparr>,
      \<lparr>permission_id = 3, codename = ''delete_unit''\<rparr>,
      \<lparr>permission_id = 4, codename = ''add_product''\<rparr>,
      \<lparr>permission_id = 5, codename = ''change_product''\<rparr>,
      \<lparr>permission_id = 6, codename = ''delete_product''\<rparr>,
      \<lparr>permission_id = 7, codename = ''add_unitimage''\<rparr>,
      \<lparr>permission_id = 8, codename = ''change_unitimage''\<rparr>,
      \<lparr>permission_id = 9, codename = ''delete_unitimage''\<rparr>,
      \<lparr>permission_id = 10, codename = ''add_orderunit''\<rparr>,
      \<lparr>permission_id = 11, codename = ''change_orderunit''\<rparr>,
      \<lparr>permission_id = 12, codename = ''delete_orderunit''\<rparr>,
      \<lparr>permission_id = 13, codename = ''add_order''\<rparr>,
      \<lparr>permission_id = 14, codename = ''change_order''\<rparr>,
      \<lparr>permission_id = 15, codename = ''delete_order''\<rparr>,
      \<lparr>permission_id = 16, codename = ''add_property''\<rparr>,
      \<lparr>permission_id = 17, codename = ''add_propertyvalue''\<rparr>]"

definition shop :: db where
  "shop = \<lparr>
     products = [shirt, hat, bag],
     tags = [\<lparr>tag_name = ''clothes'', tag_products = [1, 2]\<rparr>],
     units = [shirt_red, shirt_blue, hat_unit, bag_unit],
     unitimages = [red_picture, blue_picture, hat_side, hat_front],
     properties = [\<lparr>property_id = 1, property_name = ''Color''\<rparr>],
     propertyvalues =
       [\<lparr>value_id = 1, value_property = 1, value_value = ''Red'', value_units = [1]\<rparr>,
        \<lparr>value_id = 2, value_property = 1, value_value = ''Blue'', value_units = [2]\<rparr>],
     orders = [first_order],
     orderunits = [shirt_line, hat_line],
     permissions = staff_permissions,
     groups = [],
     group_permissions = [],
     users = [],
     user_groups = [],
     sellers = [],
     row_order = (\<lambda>rows. rows)\<rparr>"

text \<open>The two variants of the shirt, as the unit serializer represents them.\<close>

definition shirt_units_json :: "json list" where
  "shirt_units_json =
     [JObj [(''sku'', JStr ''SH-RED''), (''price'', JNum 1000),
            (''properties'', JList [JObj [(''name'', JStr ''Color''), (''value'', JStr ''Red'')]]),
            (''images'', JList [JStr ''/media/red.jpg'']),
            (''num_in_stock'', JNum 3)],
      JObj [(''sku'', JStr ''SH-BLUE''), (''price'', JNum 1500),
            (''properties'', JList [JObj [(''name'', JStr ''Color''), (''value'', JStr ''Blue'')]]),
            (''images'', JList [JStr ''/media/blue.jpg'']),
            (''num_in_stock'', JNum 0)]]"

text \<open>
  The shop after the price of the red shirt has gone up, and the unit entry of the
  first order line at a given price.
\<close>

definition shop_repriced :: db where
  "shop_repriced = shop\<lparr>units := [shirt_red\<lparr>price := 1200\<rparr>, shirt_blue, hat_unit, bag_unit]\<rparr>"

definition shirt_line_json :: "int \<Rightarrow> json" where
  "shirt_line_json p =
     JObj [(''title'', JStr ''Shirt''),
           (''properties'', JList [JObj [(''name'', JStr ''Color''), (''value'', JStr ''Red'')]]),
           (''image'', JStr ''/media/red.jpg''),
           (''product_id'', JNum 1),
           (''price'', JNum p),
           (''sku'', JStr ''SH-RED'')]"


text \<open>
  The staff group, the shop with an empty staff group made beforehand, the shop after
  \<open>get_staff_group\<close> has made the group, two sellers, and the users and states
  their creation gives.
\<close>

definition staff_group :: group_row where
  "staff_group = \<lparr>group_id = 1, group_name = ''Staff''\<rparr>"

definition shop_with_staff :: db where
  "shop_with_staff = shop\<lparr>groups := [staff_group]\<rparr>"

definition shop_staffed :: db where
  "shop_staffed = shop\<lparr>groups := [staff_group],
     group_permissions :=
       [(1, 1), (1, 2), (1, 3), (1, 4), (1, 5), (1, 6), (1, 7), (1, 8), (1, 9), (1, 10),
        (1, 11), (1, 12), (1, 14), (1, 16), (1, 17)]\<rparr>"

definition example_hasher :: "string \<Rightarrow> string" where
  "example_hasher raw = ''hashed:'' @ raw"

definition ann :: seller_data where
  "ann = \<lparr>data_email = ''ann@example.com'', data_password = ''secret'', data_name = ''Ann'',
     data_address = ''1 Main Street''\<rparr>"

definition bob :: seller_data where
  "bob = \<lparr>data_email = ''bob@example.com'', data_password = ''hunter2'', data_name = ''Bob'',
     data_address = ''2 Side Street''\<rparr>"

definition ann_user :: user where
  "ann_user = \<lparr>user_id = 1, username = ''ann@example.com'', email = ''ann@example.com'',
     password = ''hashed:secret''\<rparr>"

definition bob_user :: user where
  "bob_user = \<lparr>user_id = 2, username = ''bob@example.com'', email = ''bob@example.com'',
     password = ''hashed:hunter2''\<rparr>"

definition one_seller :: "db \<Rightarrow> db" where
  "one_seller base = base\<lparr>users := [ann_user], user_groups := [(1, 1)],
     sellers := [\<lparr>seller_user = 1, seller_name = ''Ann'', seller_address = ''1 Main Street''\<rparr>]\<rparr>"

definition two_sellers :: "db \<Rightarrow> db" where
  "two_sellers base = base\<lparr>users := [ann_user, bob_user], user_groups := [(1, 1), (2, 1)],
     sellers := [\<lparr>seller_user = 1, seller_name = ''Ann'', seller_address = ''1 Main Street''\<rparr>,
                 \<lparr>seller_user = 2, seller_name = ''Bob'', seller_address = ''2 Side Street''\<rparr>]\<rparr>"

text \<open>The permissions of the fixed set, in the order the loops look them up.\<close>

definition staff_rows :: "permission list" where
  "staff_rows =
         [\<lparr>permission_id = 1, codename = ''add_unit''\<rparr>,
          \<lparr>permission_id = 2, codename = ''change_unit''\<rparr>,
          \<lparr>permission_id = 3, codename = ''delete_unit''\<rparr>,
          \<lparr>permission_id = 4, codename = ''add_product''\<rparr>,
          \<lparr>permission_id = 5, codename = ''change_product''\<rparr>,
          \<lparr>permission_id = 6, codename = ''delete_product''\<rparr>,
          \<lparr>permission_id = 7, codename = ''add_unitimage''\<rparr>,
          \<lparr>permission_id = 8, codename = ''change_unitimage''\<rparr>,
          \<lparr>permission_id = 9, codename = ''delete_unitimage''\<rparr>,
          \<lparr>permission_id = 10, codename = ''add_orderunit''\<rparr>,
          \<lparr>permission_id = 11, codename = ''change_orderunit''\<rparr>,
          \<lparr>permission_id = 12, codename = ''delete_orderunit''\<rparr>,
          \<lparr>permission_id = 14, codename = ''change_order''\<rparr>,
          \<lparr>permission_id = 16, codename = ''add_property''\<rparr>,
          \<lparr>permission_id = 17, codename = ''add_propertyvalue''\<rparr>]"

text \<open>The shop on a database that hands rows over in the opposite order.\<close>

definition shop_reversed :: db where
  "shop_reversed = shop\<lparr>row_order := rev\<rparr>"

text \<open>
  The white space of ASCII, a unit whose SKU is the empty string, and the shop with
  that unit.
\<close>

definition ascii_space :: "char \<Rightarrow> bool" where
  "ascii_space c = (c \<in> set [CHR '' '', CHR 0x09, CHR 0x0A, CHR 0x0B, CHR 0x0C, CHR 0x0D])"

definition blank_unit :: unit_row where
  "blank_unit = \<lparr>unit_id = 5, unit_product = 3, sku = [], price = 100, num_in_stock = 5\<rparr>"

definition shop_blank_sku :: db where
  "shop_blank_sku = shop\<lparr>units := [shirt_red, shirt_blue, hat_unit, bag_unit, blank_unit]\<rparr>"



lemmas shop_defs =
  shop_def shirt_def hat_def bag_def shirt_red_def shirt_blue_def hat_unit_def bag_unit_def
  red_picture_def blue_picture_def hat_side_def hat_front_def first_order_def
  shirt_line_def hat_line_def

section \<open>Properties\<close>

subsection \<open>Helper facts\<close>

lemma bind_result_Inr [simp]: "bind_result (Inr x) f = f x"
  by (simp add: bind_result_def)

lemma bind_result_Inl [simp]: "bind_result (Inl e) f = Inl e"
  by (simp add: bind_result_def)

lemma insort_flag_main:
  "P x \<Longrightarrow> insort_key (\<lambda>i. \<not> P i) x ys = x # ys"
  by (rule insort_is_Cons) simp

lemma insort_flag_other:
  "\<not> P x \<Longrightarrow> \<forall>a\<in>set as. P a \<Longrightarrow> \<forall>b\<in>set bs. \<not> P b \<Longrightarrow>
     insort_key (\<lambda>i. \<not> P i) x (as @ bs) = as @ x # bs"
proof (induction as)
  case Nil
  then show ?case by (simp add: insort_is_Cons)
next
  case (Cons a as)
  then show ?case by simp
qed

lemma sort_key_flag:
  "sort_key (\<lambda>i. \<not> P i) xs = filter P xs @ filter (\<lambda>i. \<not> P i) xs"
proof (induction xs)
  case Nil
  show ?case by simp
next
  case (Cons x xs)
  show ?case
  proof (cases "P x")
    case True
    then show ?thesis using Cons by (simp add: insort_flag_main)
  next
    case False
    then show ?thesis using Cons
      by (simp add: insort_flag_other [where as = "filter P xs"])
  qed
qed

lemma aggregate_Max_eq: "xs \<noteq> [] \<Longrightarrow> aggregate_Max xs = Some (Max (set xs))"
proof (cases xs)
  case Nil
  assume "xs \<noteq> []"
  with Nil show ?thesis by simp
next
  case (Cons a list)
  then show ?thesis using Max.set_eq_fold [of a list] by (simp add: aggregate_Max_def)
qed

lemma aggregate_Min_eq: "xs \<noteq> [] \<Longrightarrow> aggregate_Min xs = Some (Min (set xs))"
proof (cases xs)
  case Nil
  assume "xs \<noteq> []"
  with Nil show ?thesis by simp
next
  case (Cons a list)
  then show ?thesis using Min.set_eq_fold [of a list] by (simp add: aggregate_Min_def)
qed

lemma first_row_Nil: "first_row [] = None"
  by (simp add: first_row_def)

lemma first_row_Cons: "first_row (x # xs) = Some x"
  by (simp add: first_row_def)

lemma sort_key_Nil_iff: "sort_key f xs = [] \<longleftrightarrow> xs = []"
proof -
  have "length (sort_key f xs) = length xs" by (rule length_sort)
  then show ?thesis by (metis length_0_conv)
qed

lemma first_by_pk_None: "first_by_pk pk xs = None \<longleftrightarrow> xs = []"
proof (cases "sort_key pk xs")
  case Nil
  then show ?thesis using sort_key_Nil_iff [of pk xs]
    by (simp add: first_by_pk_def first_row_Nil)
next
  case (Cons a list)
  then show ?thesis using sort_key_Nil_iff [of pk xs]
    by (simp add: first_by_pk_def first_row_Cons)
qed

lemma first_by_pk_Some:
  "first_by_pk pk xs = Some x \<Longrightarrow> \<exists>r. sort_key pk xs = x # r"
  by (cases "sort_key pk xs") (simp_all add: first_by_pk_def first_row_Nil first_row_Cons)

lemma first_by_pk_mem: "first_by_pk pk xs = Some x \<Longrightarrow> x \<in> set xs"
proof -
  assume a: "first_by_pk pk xs = Some x"
  from first_by_pk_Some [OF a] obtain r where "sort_key pk xs = x # r" ..
  then have "x \<in> set (sort_key pk xs)" by simp
  then show ?thesis by simp
qed

lemma first_by_pk_least:
  "first_by_pk pk xs = Some x \<Longrightarrow> y \<in> set xs \<Longrightarrow> pk x \<le> pk y"
proof -
  assume a: "first_by_pk pk xs = Some x" and y: "y \<in> set xs"
  from first_by_pk_Some [OF a] obtain r where r: "sort_key pk xs = x # r" ..
  have "sorted (map pk (sort_key pk xs))" by (rule sorted_sort_key)
  with r have "\<forall>z\<in>set r. pk x \<le> pk z" by simp
  moreover from y have "y \<in> set (sort_key pk xs)" by simp
  ultimately show ?thesis using r by auto
qed

lemma filter_other_all: "filter P xs = [] \<Longrightarrow> filter (\<lambda>i. \<not> P i) xs = xs"
  by (induction xs) (auto split: if_splits)

lemma unitimage_set_cong: "unit_id u = unit_id v \<Longrightarrow> unitimage_set d u = unitimage_set d v"
  by (simp add: unitimage_set_def)

lemma shop_unit_sets:
  "unit_set shop shirt = [shirt_red, shirt_blue]"
  "unit_set shop hat = [hat_unit]"
  "unit_set shop bag = [bag_unit]"
  by (simp_all add: unit_set_def shop_defs)

lemma shop_unitimage_sets:
  "unitimage_set shop shirt_red = [red_picture]"
  "unitimage_set shop shirt_blue = [blue_picture]"
  "unitimage_set shop hat_unit = [hat_side, hat_front]"
  "unitimage_set shop bag_unit = []"
  by (simp_all add: unitimage_set_def shop_defs)

lemma to_representation_5:
  "field a = Inr va \<Longrightarrow> field b = Inr vb \<Longrightarrow> field c = Inr vc \<Longrightarrow> field e = Inr ve \<Longrightarrow>
   field f = Inr vf \<Longrightarrow>
   to_representation [a, b, c, e, f] field = Inr (JObj [(a, va), (b, vb), (c, vc), (e, ve), (f, vf)])"
  by (simp add: to_representation_def)

lemma map_result_keys:
  "map_result (\<lambda>name. bind_result (field name) (\<lambda>v. Inr (name, v))) names = Inr kvs
     \<Longrightarrow> map fst kvs = names"
proof (induction names arbitrary: kvs)
  case Nil
  then show ?case by auto
next
  case (Cons n ns)
  then show ?case
    by (auto simp: bind_result_def split: sum.splits)
qed

lemma representation_keys_to_representation:
  "set (representation_keys (to_representation names field)) \<subseteq> set names"
proof (cases "map_result (\<lambda>name. bind_result (field name) (\<lambda>v. Inr (name, v))) names")
  case (Inl e)
  then show ?thesis by (simp add: to_representation_def representation_keys_def)
next
  case (Inr kvs)
  then show ?thesis using map_result_keys [OF Inr]
    by (simp add: to_representation_def representation_keys_def)
qed

lemma shirt_units_serialized:
  "map_result (UnitSerializer_to_representation shop) (unit_set shop shirt) = Inr shirt_units_json"
  by code_simp

lemma shirt_detail:
  "ProductSerializer_to_representation shop shirt =
     Inr (JObj [(''id'', JNum 1), (''title'', JStr ''Shirt''),
                (''tags'', JList [JStr ''clothes'']),
                (''description'', JStr ''A cotton shirt''),
                (''units'', JList shirt_units_json)])"
  by code_simp

lemma shirt_list:
  "ProductListSerializer_to_representation shop shirt =
     Inr (JObj [(''id'', JNum 1), (''title'', JStr ''Shirt''),
                (''tags'', JList [JStr ''clothes'']),
                (''prices'', JObj [(''min'', JNum 1000), (''max'', JNum 1500)]),
                (''image'', JStr ''/media/red.jpg'')])"
  by code_simp

lemma filter_key_single:
  "distinct (map key rows) \<Longrightarrow> k \<in> key ` set rows \<Longrightarrow> length (filter (\<lambda>r. key r = k) rows) = 1"
proof (induction rows)
  case Nil
  then show ?case by simp
next
  case (Cons r rows)
  show ?case
  proof (cases "key r = k")
    case True
    from Cons.prems have "key r \<notin> key ` set rows" by simp
    with True have "\<forall>x\<in>set rows. key x \<noteq> k" by (metis imageI)
    then have "filter (\<lambda>r. key r = k) rows = []" by (simp add: filter_empty_conv)
    with True show ?thesis by simp
  next
    case False
    with Cons show ?thesis by auto
  qed
qed

lemma length_concat_singletons:
  "\<forall>x\<in>set xs. length (f x) = 1 \<Longrightarrow> length (concat (map f xs)) = length xs"
  by (induction xs) simp_all

lemma shop_orderunit_set: "orderunit_set shop first_order = [shirt_line, hat_line]"
  by (simp add: orderunit_set_def shop_defs)

lemma to_representation_JObj:
  "to_representation names field = Inr r \<Longrightarrow> \<exists>kvs. r = JObj kvs"
  by (auto simp: to_representation_def bind_result_def split: sum.splits)

lemma get_unit_price:
  "get_unit d obj = Inr r \<Longrightarrow> representation_value (Inr r) ''price'' = Some (JNum (unit_price obj))"
proof -
  assume a: "get_unit d obj = Inr r"
  then obtain u data where u: "objects_get (\<lambda>u. unit_id u = orderunit_unit obj) (units d) = Inr u"
    and data: "UnitForOrderDetail_data d u = Inr data"
    and r: "r = setitem data ''price'' (JNum (unit_price obj))"
    by (auto simp: get_unit_def bind_result_def split: sum.splits)
  from data obtain kvs where "data = JObj kvs"
    unfolding UnitForOrderDetail_data_def using to_representation_JObj by blast
  with r show ?thesis
    by (simp add: setitem_def representation_value_def update_conv')
qed

lemma shirt_line_unit: "get_unit shop shirt_line = Inr (shirt_line_json 800)"
  by code_simp

lemma shirt_line_unit_repriced: "get_unit shop_repriced shirt_line = Inr (shirt_line_json 800)"
  by code_simp

lemma shirt_red_data:
  "UnitForOrderDetail_data shop shirt_red = Inr (shirt_line_json 1000)"
  "UnitForOrderDetail_data shop_repriced (shirt_red\<lparr>price := 1200\<rparr>) = Inr (shirt_line_json 1200)"
  by code_simp+

lemma objects_get_none:
  "(\<forall>x\<in>set rows. \<not> P x) \<Longrightarrow> objects_get P rows = Inl ObjectDoesNotExist"
  by (simp add: objects_get_def filter_empty_conv)

lemma filter_key_unique:
  "distinct (map key rows) \<Longrightarrow> r \<in> set rows \<Longrightarrow> filter (\<lambda>x. key x = key r) rows = [r]"
proof (induction rows)
  case Nil
  then show ?case by simp
next
  case (Cons a rows)
  show ?case
  proof (cases "a = r")
    case True
    from Cons.prems have "key a \<notin> key ` set rows" by simp
    with True have "\<forall>x\<in>set rows. key x \<noteq> key r" by (metis imageI)
    then have "filter (\<lambda>x. key x = key r) rows = []" by (simp add: filter_empty_conv)
    with True show ?thesis by simp
  next
    case False
    with Cons.prems have r: "r \<in> set rows" by simp
    from Cons.prems have "key a \<notin> key ` set rows" by simp
    with r have "key a \<noteq> key r" by (metis imageI)
    with Cons r show ?thesis by simp
  qed
qed

lemma objects_get_unique:
  "distinct (map key rows) \<Longrightarrow> r \<in> set rows \<Longrightarrow> objects_get (\<lambda>x. key x = key r) rows = Inr r"
  by (simp add: objects_get_def filter_key_unique)

lemma shop_skus: "map sku (units shop) = [''SH-RED'', ''SH-BLUE'', ''HAT'', ''BAG'']"
  by (simp add: shop_defs)

lemma add_permissions_Cons_Inr:
  "add_permissions d grp (c # cs) = Inr d' \<Longrightarrow>
     \<exists>perm. objects_get (\<lambda>p. codename p = c) (permissions d) = Inr perm
       \<and> add_permissions
          (d\<lparr>group_permissions :=
               related_add (group_permissions d) (group_id grp, permission_id perm)\<rparr>)
          grp cs = Inr d'"
  by (cases "objects_get (\<lambda>p. codename p = c) (permissions d)") simp_all

lemma add_permissions_frame:
  "add_permissions d grp cs = Inr d' \<Longrightarrow>
     groups d' = groups d \<and> permissions d' = permissions d \<and> users d' = users d
     \<and> user_groups d' = user_groups d \<and> sellers d' = sellers d
     \<and> set (group_permissions d) \<subseteq> set (group_permissions d')"
proof (induction cs arbitrary: d)
  case Nil
  then show ?case by simp
next
  case (Cons c cs)
  from add_permissions_Cons_Inr [OF Cons.prems] obtain perm :: permission where
    step: "add_permissions
          (d\<lparr>group_permissions :=
               related_add (group_permissions d) (group_id grp, permission_id perm)\<rparr>)
          grp cs = Inr d'"
    by blast
  from Cons.IH [OF step] show ?case
    by (auto simp: related_add_def split: if_splits)
qed

lemma objects_get_Inr: "objects_get P rows = Inr x \<Longrightarrow> x \<in> set rows \<and> P x"
proof -
  assume a: "objects_get P rows = Inr x"
  then have "filter P rows = [x]"
    by (auto simp: objects_get_def split: list.splits)
  then have "x \<in> set (filter P rows)" by simp
  then show ?thesis by simp
qed

lemma add_permissions_adds:
  "add_permissions d grp cs = Inr d' \<Longrightarrow> c \<in> set cs \<Longrightarrow>
     \<exists>p\<in>set (permissions d). codename p = c
        \<and> (group_id grp, permission_id p) \<in> set (group_permissions d')"
proof (induction cs arbitrary: d)
  case Nil
  then show ?case by simp
next
  case (Cons a cs)
  from add_permissions_Cons_Inr [OF Cons.prems(1)] obtain perm where
    perm: "objects_get (\<lambda>p. codename p = a) (permissions d) = Inr perm" and
    step: "add_permissions
          (d\<lparr>group_permissions :=
               related_add (group_permissions d) (group_id grp, permission_id perm)\<rparr>)
          grp cs = Inr d'"
    by blast
  let ?d1 = "d\<lparr>group_permissions :=
               related_add (group_permissions d) (group_id grp, permission_id perm)\<rparr>"
  show ?case
  proof (cases "c = a")
    case True
    from objects_get_Inr [OF perm] have p: "perm \<in> set (permissions d)" "codename perm = a"
      by simp_all
    have "(group_id grp, permission_id perm) \<in> set (group_permissions ?d1)"
      by (simp add: related_add_def)
    with add_permissions_frame [OF step]
    have "(group_id grp, permission_id perm) \<in> set (group_permissions d')" by blast
    with p True show ?thesis by blast
  next
    case False
    with Cons.prems(2) have "c \<in> set cs" by simp
    from Cons.IH [OF step this] show ?thesis by simp
  qed
qed

lemma group_codenames_mem:
  "p \<in> set (permissions d) \<Longrightarrow> (group_id g, permission_id p) \<in> set (group_permissions d)
     \<Longrightarrow> codename p \<in> set (group_codenames d g)"
  by (simp add: group_codenames_def)

lemma get_staff_group_existing:
  "filter (\<lambda>g. group_name g = ''Staff'') (groups d) = [g] \<Longrightarrow> get_staff_group d = Inr (g, d)"
  by (simp add: get_staff_group_def objects_get_def)

lemma get_staff_group_created:
  assumes none: "\<forall>g\<in>set (groups d). group_name g \<noteq> ''Staff''"
    and res: "get_staff_group d = Inr (g', d')"
  shows "g' = \<lparr>group_id = next_id (map group_id (groups d)), group_name = ''Staff''\<rparr>"
    and "groups d' = groups d @ [g']"
    and "permissions d' = permissions d"
    and "users d' = users d" and "user_groups d' = user_groups d" and "sellers d' = sellers d"
    and "set staff_codenames \<subseteq> set (group_codenames d' g')"
proof -
  from none have g: "objects_get (\<lambda>g. group_name g = ''Staff'') (groups d) = Inl ObjectDoesNotExist"
    by (intro objects_get_none) blast
  from none have c: "Group_objects_create d ''Staff'' =
      Inr (\<lparr>group_id = next_id (map group_id (groups d)), group_name = ''Staff''\<rparr>,
           d\<lparr>groups := groups d @ [\<lparr>group_id = next_id (map group_id (groups d)), group_name = ''Staff''\<rparr>]\<rparr>)"
    by (auto simp: Group_objects_create_def Let_def)
  let ?g = "\<lparr>group_id = next_id (map group_id (groups d)), group_name = ''Staff''\<rparr>"
  let ?d1 = "d\<lparr>groups := groups d @ [?g]\<rparr>"
  from res g c have a: "add_permissions ?d1 ?g staff_codenames = Inr d'" and eq: "g' = ?g"
    by (auto simp: get_staff_group_def bind_result_def split: sum.splits)
  from eq show "g' = ?g" .
  from add_permissions_frame [OF a] eq
  show "groups d' = groups d @ [g']" "permissions d' = permissions d"
    "users d' = users d" "user_groups d' = user_groups d" "sellers d' = sellers d"
    by simp_all
  show "set staff_codenames \<subseteq> set (group_codenames d' g')"
  proof
    fix c assume "c \<in> set staff_codenames"
    from add_permissions_adds [OF a this] obtain p where
      p: "p \<in> set (permissions ?d1)" "codename p = c"
         "(group_id ?g, permission_id p) \<in> set (group_permissions d')" by blast
    from add_permissions_frame [OF a] have "permissions d' = permissions ?d1" by simp
    with p eq show "c \<in> set (group_codenames d' g')"
      using group_codenames_mem [of p d' g'] by auto
  qed
qed

lemma staff_codenames_eval:
  "staff_codenames =
     [''add_unit'', ''change_unit'', ''delete_unit'',
      ''add_product'', ''change_product'', ''delete_product'',
      ''add_unitimage'', ''change_unitimage'', ''delete_unitimage'',
      ''add_orderunit'', ''change_orderunit'', ''delete_orderunit'',
      ''change_order'', ''add_property'', ''add_propertyvalue'']"
  by (simp add: staff_codenames_def content_types_def all_permissions_def)

lemma add_permissions_fold:
  "map_result (\<lambda>c. objects_get (\<lambda>p. codename p = c) (permissions d)) cs = Inr perms \<Longrightarrow>
   add_permissions d grp cs =
     Inr (d\<lparr>group_permissions :=
            fold (\<lambda>p table. related_add table (group_id grp, permission_id p)) perms
              (group_permissions d)\<rparr>)"
proof (induction cs arbitrary: d perms)
  case Nil
  then show ?case by simp
next
  case (Cons c cs)
  from Cons.prems obtain perm rest where
    perm: "objects_get (\<lambda>p. codename p = c) (permissions d) = Inr perm" and
    rest: "map_result (\<lambda>c. objects_get (\<lambda>p. codename p = c) (permissions d)) cs = Inr rest" and
    perms: "perms = perm # rest"
    by (auto simp: bind_result_def split: sum.splits)
  let ?d1 = "d\<lparr>group_permissions :=
               related_add (group_permissions d) (group_id grp, permission_id perm)\<rparr>"
  from rest have "map_result (\<lambda>c. objects_get (\<lambda>p. codename p = c) (permissions ?d1)) cs = Inr rest"
    by simp
  from Cons.IH [OF this] perm perms show ?case by simp
qed

lemma staff_lookup:
  "objects_get (\<lambda>p. codename p = ''add_unit'') staff_permissions = Inr \<lparr>permission_id = 1, codename = ''add_unit''\<rparr>"
  "objects_get (\<lambda>p. codename p = ''change_unit'') staff_permissions = Inr \<lparr>permission_id = 2, codename = ''change_unit''\<rparr>"
  "objects_get (\<lambda>p. codename p = ''delete_unit'') staff_permissions = Inr \<lparr>permission_id = 3, codename = ''delete_unit''\<rparr>"
  "objects_get (\<lambda>p. codename p = ''add_product'') staff_permissions = Inr \<lparr>permission_id = 4, codename = ''add_product''\<rparr>"
  "objects_get (\<lambda>p. codename p = ''change_product'') staff_permissions = Inr \<lparr>permission_id = 5, codename = ''change_product''\<rparr>"
  "objects_get (\<lambda>p. codename p = ''delete_product'') staff_permissions = Inr \<lparr>permission_id = 6, codename = ''delete_product''\<rparr>"
  "objects_get (\<lambda>p. codename p = ''add_unitimage'') staff_permissions = Inr \<lparr>permission_id = 7, codename = ''add_unitimage''\<rparr>"
  "objects_get (\<lambda>p. codename p = ''change_unitimage'') staff_permissions = Inr \<lparr>permission_id = 8, codename = ''change_unitimage''\<rparr>"
  "objects_get (\<lambda>p. codename p = ''delete_unitimage'') staff_permissions = Inr \<lparr>permission_id = 9, codename = ''delete_unitimage''\<rparr>"
  "objects_get (\<lambda>p. codename p = ''add_orderunit'') staff_permissions = Inr \<lparr>permission_id = 10, codename = ''add_orderunit''\<rparr>"
  "objects_get (\<lambda>p. codename p = ''change_orderunit'') staff_permissions = Inr \<lparr>permission_id = 11, codename = ''change_orderunit''\<rparr>"
  "objects_get (\<lambda>p. codename p = ''delete_orderunit'') staff_permissions = Inr \<lparr>permission_id = 12, codename = ''delete_orderunit''\<rparr>"
  "objects_get (\<lambda>p. codename p = ''change_order'') staff_permissions = Inr \<lparr>permission_id = 14, codename = ''change_order''\<rparr>"
  "objects_get (\<lambda>p. codename p = ''add_property'') staff_permissions = Inr \<lparr>permission_id = 16, codename = ''add_property''\<rparr>"
  "objects_get (\<lambda>p. codename p = ''add_propertyvalue'') staff_permissions = Inr \<lparr>permission_id = 17, codename = ''add_propertyvalue''\<rparr>"
  by (simp_all add: objects_get_def staff_permissions_def)

lemma staff_lookup_all:
  "map_result (\<lambda>c. objects_get (\<lambda>p. codename p = c) staff_permissions) staff_codenames =
     Inr staff_rows"
  unfolding staff_codenames_eval staff_rows_def
  by (simp add: staff_lookup)

lemma staff_rows_fold:
  "fold (\<lambda>p table. related_add table (gid, permission_id p)) staff_rows [] =
     map (Pair gid) [1, 2, 3, 4, 5, 6, 7, 8, 9, 10, 11, 12, 14, 16, 17]"
  by (simp add: staff_rows_def related_add_def)

lemma shop_facts:
  "groups shop = []" "permissions shop = staff_permissions" "group_permissions shop = []"
  "users shop = []" "user_groups shop = []" "sellers shop = []"
  by (simp_all add: shop_def)

lemma shop_get_staff_group: "get_staff_group shop = Inr (staff_group, shop_staffed)"
proof -
  have g: "objects_get (\<lambda>g. group_name g = ''Staff'') (groups shop) = Inl ObjectDoesNotExist"
    by (simp add: objects_get_def shop_facts)
  have c: "Group_objects_create shop ''Staff'' = Inr (staff_group, shop\<lparr>groups := [staff_group]\<rparr>)"
    by (simp add: Group_objects_create_def Let_def next_id_def shop_facts staff_group_def)
  have a: "add_permissions (shop\<lparr>groups := [staff_group]\<rparr>) staff_group staff_codenames =
      Inr (shop\<lparr>groups := [staff_group]\<rparr>\<lparr>group_permissions :=
            fold (\<lambda>p table. related_add table (group_id staff_group, permission_id p)) staff_rows
              (group_permissions (shop\<lparr>groups := [staff_group]\<rparr>))\<rparr>)"
    by (rule add_permissions_fold) (simp add: shop_facts staff_lookup_all)
  have i: "group_id staff_group = 1" by (simp add: staff_group_def)
  show ?thesis
    unfolding get_staff_group_def g
    by (simp add: c a i shop_facts staff_rows_fold shop_staffed_def)
qed

lemma shop_with_staff_get_staff_group:
  "get_staff_group shop_with_staff = Inr (staff_group, shop_with_staff)"
  by (simp add: get_staff_group_def objects_get_def shop_with_staff_def staff_group_def)

lemma User_objects_create_Inr:
  "User_objects_create d mail name = Inr (usr, d1) \<Longrightarrow>
     d1 = d\<lparr>users := users d @ [usr]\<rparr> \<and> user_id usr = next_id (map user_id (users d))"
  by (auto simp: User_objects_create_def Let_def split: if_splits)

lemma SellerSerializer_create_Inr:
  assumes "SellerSerializer_create mk d v = Inr (u, d')"
  shows "\<exists>usr g dB. get_staff_group (d\<lparr>users := users d @ [usr]\<rparr>) = Inr (g, dB)
      \<and> user_id u = user_id usr
      \<and> groups d' = groups dB \<and> permissions d' = permissions dB
      \<and> group_permissions d' = group_permissions dB
      \<and> user_groups d' = related_add (user_groups dB) (user_id usr, group_id g)"
proof -
  from assms obtain usr d1 where
    c: "User_objects_create d (data_email v) (data_email v) = Inr (usr, d1)"
    and r: "bind_result (get_staff_group d1)
            (\<lambda>(staff_group, d2).
               let d3 = d2\<lparr>user_groups :=
                             related_add (user_groups d2) (user_id usr, group_id staff_group)\<rparr>;
                   usr' = usr\<lparr>password := mk (data_password v)\<rparr>;
                   d4 = d3\<lparr>users := map (\<lambda>x. if user_id x = user_id usr' then usr' else x)
                                         (users d3)\<rparr>;
                   d5 = d4\<lparr>sellers := sellers d4 @
                           [\<lparr>seller_user = user_id usr',
                             seller_name = data_name v,
                             seller_address = data_address v\<rparr>]\<rparr>
               in Inr (usr', d5)) = Inr (u, d')"
    unfolding SellerSerializer_create_def
    by (cases "User_objects_create d (data_email v) (data_email v)") auto
  from r obtain g dB where g: "get_staff_group d1 = Inr (g, dB)"
    by (cases "get_staff_group d1") auto
  from User_objects_create_Inr [OF c] have d1: "d1 = d\<lparr>users := users d @ [usr]\<rparr>" by simp
  from r g have "user_id u = user_id usr
      \<and> groups d' = groups dB \<and> permissions d' = permissions dB
      \<and> group_permissions d' = group_permissions dB
      \<and> user_groups d' = related_add (user_groups dB) (user_id usr, group_id g)"
    by (auto simp: Let_def)
  with g d1 show ?thesis by blast
qed

lemma group_codenames_cong:
  "permissions d' = permissions d \<Longrightarrow> group_permissions d' = group_permissions d \<Longrightarrow>
     group_codenames d' g = group_codenames d g"
  by (simp add: group_codenames_def)

lemma get_staff_group_frame:
  "get_staff_group d = Inr (g, d') \<Longrightarrow> set (user_groups d) \<subseteq> set (user_groups d')"
proof -
  assume a: "get_staff_group d = Inr (g, d')"
  show ?thesis
  proof (cases "objects_get (\<lambda>g. group_name g = ''Staff'') (groups d)")
    case (Inr x)
    with a show ?thesis by (simp add: get_staff_group_def)
  next
    case (Inl e)
    with a have e: "e = ObjectDoesNotExist"
      by (cases e) (simp_all add: get_staff_group_def)
    with a Inl obtain d1 where
      "add_permissions (d\<lparr>groups := groups d @ [g]\<rparr>) g staff_codenames = Inr d1" "d' = d1"
      by (auto simp: get_staff_group_def Group_objects_create_def Let_def bind_result_def
          split: if_splits sum.splits)
    with add_permissions_frame [of "d\<lparr>groups := groups d @ [g]\<rparr>" g staff_codenames d']
    show ?thesis by simp
  qed
qed

lemma get_staff_group_fresh:
  assumes "groups d = []" "permissions d = staff_permissions" "group_permissions d = []"
  shows "get_staff_group d =
     Inr (staff_group,
          d\<lparr>groups := [staff_group],
            group_permissions :=
              map (Pair 1) [1, 2, 3, 4, 5, 6, 7, 8, 9, 10, 11, 12, 14, 16, 17]\<rparr>)"
proof -
  have g: "objects_get (\<lambda>g. group_name g = ''Staff'') (groups d) = Inl ObjectDoesNotExist"
    by (simp add: objects_get_def assms)
  have c: "Group_objects_create d ''Staff'' = Inr (staff_group, d\<lparr>groups := [staff_group]\<rparr>)"
    by (simp add: Group_objects_create_def Let_def next_id_def assms staff_group_def)
  have a: "add_permissions (d\<lparr>groups := [staff_group]\<rparr>) staff_group staff_codenames =
      Inr (d\<lparr>groups := [staff_group]\<rparr>\<lparr>group_permissions :=
            fold (\<lambda>p table. related_add table (group_id staff_group, permission_id p)) staff_rows
              (group_permissions (d\<lparr>groups := [staff_group]\<rparr>))\<rparr>)"
    by (rule add_permissions_fold) (simp add: assms staff_lookup_all)
  have i: "group_id staff_group = 1" by (simp add: staff_group_def)
  show ?thesis
    unfolding get_staff_group_def g
    by (simp add: c a i assms staff_rows_fold)
qed

lemma get_staff_group_present:
  "groups d = [staff_group] \<Longrightarrow> get_staff_group d = Inr (staff_group, d)"
  by (rule get_staff_group_existing) (simp add: staff_group_def)

lemma SellerSerializer_create_eval:
  assumes "data_email v \<notin> set (map username (users d))"
    and "get_staff_group
           (d\<lparr>users := users d @
                [\<lparr>user_id = next_id (map user_id (users d)), username = data_email v,
                  email = data_email v, password = []\<rparr>]\<rparr>) = Inr (g, dB)"
  shows "SellerSerializer_create mk d v =
     Inr (\<lparr>user_id = next_id (map user_id (users d)), username = data_email v,
           email = data_email v, password = mk (data_password v)\<rparr>,
          dB\<lparr>user_groups :=
               related_add (user_groups dB) (next_id (map user_id (users d)), group_id g),
             users := map (\<lambda>x. if user_id x = next_id (map user_id (users d))
                                then \<lparr>user_id = next_id (map user_id (users d)),
                                      username = data_email v, email = data_email v,
                                      password = mk (data_password v)\<rparr>
                                else x) (users dB),
             sellers := sellers dB @
               [\<lparr>seller_user = next_id (map user_id (users d)), seller_name = data_name v,
                 seller_address = data_address v\<rparr>]\<rparr>)"
  using assms
  by (simp add: SellerSerializer_create_def User_objects_create_def Let_def)

lemma ann_facts:
  "data_email ann = ''ann@example.com''" "data_password ann = ''secret''"
  "data_name ann = ''Ann''" "data_address ann = ''1 Main Street''"
  by (simp_all add: ann_def)

lemma bob_facts:
  "data_email bob = ''bob@example.com''" "data_password bob = ''hunter2''"
  "data_name bob = ''Bob''" "data_address bob = ''2 Side Street''"
  by (simp_all add: bob_def)

lemma create_ann_in_shop:
  "SellerSerializer_create example_hasher shop ann = Inr (ann_user, one_seller shop_staffed)"
proof -
  have n: "data_email ann \<notin> set (map username (users shop))" by (simp add: shop_facts)
  note g = get_staff_group_fresh
    [of "shop\<lparr>users := users shop @
                [\<lparr>user_id = next_id (map user_id (users shop)), username = data_email ann,
                  email = data_email ann, password = []\<rparr>]\<rparr>"]
  have g': "get_staff_group
     (shop\<lparr>users := users shop @
                [\<lparr>user_id = next_id (map user_id (users shop)), username = data_email ann,
                  email = data_email ann, password = []\<rparr>]\<rparr>) =
     Inr (staff_group,
          shop\<lparr>users := users shop @
                [\<lparr>user_id = next_id (map user_id (users shop)), username = data_email ann,
                  email = data_email ann, password = []\<rparr>]\<rparr>
           \<lparr>groups := [staff_group],
            group_permissions :=
              map (Pair 1) [1, 2, 3, 4, 5, 6, 7, 8, 9, 10, 11, 12, 14, 16, 17]\<rparr>)"
    by (rule g) (simp_all add: shop_facts)
  from SellerSerializer_create_eval [OF n g', of example_hasher] show ?thesis
    by (simp add: shop_facts ann_facts next_id_def related_add_def staff_group_def
        example_hasher_def ann_user_def one_seller_def shop_staffed_def)
qed

lemma fold_max_init: "(m::nat) \<le> fold max ks m"
proof (induction ks arbitrary: m)
  case Nil
  show ?case by simp
next
  case (Cons a ks)
  have "m \<le> max a m" by simp
  also have "\<dots> \<le> fold max ks (max a m)" by (rule Cons.IH)
  finally show ?case by simp
qed

lemma fold_max_mem: "k \<in> set ks \<Longrightarrow> (k::nat) \<le> fold max ks m"
proof (induction ks arbitrary: m)
  case Nil
  then show ?case by simp
next
  case (Cons a ks)
  show ?case
  proof (cases "k = a")
    case True
    have "k \<le> max a m" using True by simp
    also have "\<dots> \<le> fold max ks (max a m)" by (rule fold_max_init)
    finally show ?thesis by simp
  next
    case False
    with Cons.prems have "k \<in> set ks" by simp
    from Cons.IH [OF this] show ?thesis by simp
  qed
qed

lemma next_id_fresh: "\<forall>x\<in>set rows. key x \<noteq> next_id (map key rows)"
proof
  fix x assume "x \<in> set rows"
  then have "key x \<in> set (map key rows)" by simp
  from fold_max_mem [OF this] have "key x \<le> fold max (map key rows) 0" .
  then show "key x \<noteq> next_id (map key rows)" by (simp add: next_id_def)
qed

lemma SellerSerializer_create_present:
  assumes n: "data_email v \<notin> set (map username (users d))" and g: "groups d = [staff_group]"
  shows "SellerSerializer_create mk d v =
     Inr (\<lparr>user_id = next_id (map user_id (users d)), username = data_email v,
           email = data_email v, password = mk (data_password v)\<rparr>,
          d\<lparr>user_groups :=
               related_add (user_groups d) (next_id (map user_id (users d)), 1),
            users := users d @
              [\<lparr>user_id = next_id (map user_id (users d)), username = data_email v,
                email = data_email v, password = mk (data_password v)\<rparr>],
            sellers := sellers d @
               [\<lparr>seller_user = next_id (map user_id (users d)), seller_name = data_name v,
                 seller_address = data_address v\<rparr>]\<rparr>)"
proof -
  let ?u0 = "\<lparr>user_id = next_id (map user_id (users d)), username = data_email v,
                  email = data_email v, password = []\<rparr>"
  have fresh: "\<forall>x\<in>set (users d). user_id x \<noteq> next_id (map user_id (users d))"
    by (rule next_id_fresh)
  then have m: "map (\<lambda>x. if user_id x = next_id (map user_id (users d)) then y else x) (users d)
      = users d" for y
    by (simp add: map_idI)
  have "get_staff_group (d\<lparr>users := users d @ [?u0]\<rparr>) = Inr (staff_group, d\<lparr>users := users d @ [?u0]\<rparr>)"
    by (rule get_staff_group_present) (simp add: g)
  from SellerSerializer_create_eval [OF n this, of mk] show ?thesis
    by (simp add: staff_group_def m)
qed

lemma create_bob_after_ann:
  "SellerSerializer_create example_hasher (one_seller shop_staffed) bob =
     Inr (bob_user, two_sellers shop_staffed)"
proof -
  have n: "data_email bob \<notin> set (map username (users (one_seller shop_staffed)))"
    by (simp add: one_seller_def bob_facts ann_user_def)
  have g: "groups (one_seller shop_staffed) = [staff_group]"
    by (simp add: one_seller_def shop_staffed_def)
  from SellerSerializer_create_present [OF n g, of example_hasher] show ?thesis
    by (simp add: one_seller_def two_sellers_def bob_facts next_id_def related_add_def
        example_hasher_def ann_user_def bob_user_def)
qed

lemma create_ann_with_staff:
  "SellerSerializer_create example_hasher shop_with_staff ann =
     Inr (ann_user, one_seller shop_with_staff)"
proof -
  have n: "data_email ann \<notin> set (map username (users shop_with_staff))"
    by (simp add: shop_with_staff_def shop_facts)
  have g: "groups shop_with_staff = [staff_group]" by (simp add: shop_with_staff_def)
  from SellerSerializer_create_present [OF n g, of example_hasher] show ?thesis
    by (simp add: one_seller_def shop_with_staff_def shop_facts ann_facts next_id_def
        related_add_def example_hasher_def ann_user_def)
qed

lemma create_bob_with_staff:
  "SellerSerializer_create example_hasher (one_seller shop_with_staff) bob =
     Inr (bob_user, two_sellers shop_with_staff)"
proof -
  have n: "data_email bob \<notin> set (map username (users (one_seller shop_with_staff)))"
    by (simp add: one_seller_def bob_facts ann_user_def)
  have g: "groups (one_seller shop_with_staff) = [staff_group]"
    by (simp add: one_seller_def shop_with_staff_def)
  from SellerSerializer_create_present [OF n g, of example_hasher] show ?thesis
    by (simp add: one_seller_def two_sellers_def bob_facts next_id_def related_add_def
        example_hasher_def ann_user_def bob_user_def)
qed

lemma staffed_codenames:
  "group_codenames (two_sellers shop_staffed) staff_group = staff_codenames"
  unfolding staff_codenames_eval
  by (simp add: group_codenames_def two_sellers_def shop_staffed_def shop_facts staff_group_def
      staff_permissions_def)

lemma first_row_order_by_desc_is_main:
  "first_row (order_by_desc_is_main d imgs) =
     (case filter is_main (row_order d imgs) of
        [] \<Rightarrow> first_row (row_order d imgs)
      | m # _ \<Rightarrow> Some m)"
proof (cases "filter is_main (row_order d imgs)")
  case Nil
  then show ?thesis
    by (simp add: order_by_desc_is_main_def sort_key_flag filter_other_all)
next
  case (Cons m r)
  then show ?thesis
    by (simp add: order_by_desc_is_main_def sort_key_flag first_row_Cons)
qed

lemma first_row_order_by_desc_is_main_cases:
  assumes s: "set (row_order d imgs) = set imgs" and ne: "imgs \<noteq> []"
  shows "\<exists>x\<in>set imgs. first_row (order_by_desc_is_main d imgs) = Some x
           \<and> ((\<exists>i\<in>set imgs. is_main i) \<longrightarrow> is_main x)"
proof (cases "filter is_main (row_order d imgs)")
  case Nil
  then have none: "\<forall>i\<in>set (row_order d imgs). \<not> is_main i" by (simp add: filter_empty_conv)
  from ne s have "row_order d imgs \<noteq> []" by (metis set_empty)
  then obtain x r where xr: "row_order d imgs = x # r" by (cases "row_order d imgs") auto
  then have "x \<in> set (row_order d imgs)" by simp
  with s have x: "x \<in> set imgs" by simp
  have "first_row (order_by_desc_is_main d imgs) = first_row (row_order d imgs)"
    unfolding first_row_order_by_desc_is_main by (simp only: Nil list.case)
  then have f: "first_row (order_by_desc_is_main d imgs) = Some x"
    by (simp only: xr first_row_Cons)
  from none s have "\<not> (\<exists>i\<in>set imgs. is_main i)" by simp
  with x f show ?thesis by blast
next
  case (Cons m r)
  then have "m \<in> set (filter is_main (row_order d imgs))" by simp
  then have "m \<in> set (row_order d imgs)" and main: "is_main m" by simp_all
  with s have m: "m \<in> set imgs" by simp
  have f: "first_row (order_by_desc_is_main d imgs) = Some m"
    unfolding first_row_order_by_desc_is_main by (simp only: Cons list.case)
  from m main f show ?thesis by blast
qed

lemma get_image_at_first:
  assumes s: "set (row_order d (unitimage_set d u)) = set (unitimage_set d u)"
    and u: "u \<in> set (unit_set d obj)" and ne: "unitimage_set d u \<noteq> []"
    and least: "\<forall>v\<in>set (unit_set d obj). unitimage_set d v \<noteq> [] \<longrightarrow> unit_id u \<le> unit_id v"
  shows "\<exists>x\<in>set (unitimage_set d u). get_image d obj = JStr (image_url x)
           \<and> ((\<exists>i\<in>set (unitimage_set d u). is_main i) \<longrightarrow> is_main x)"
proof -
  let ?us = "filter (\<lambda>u. unitimage_set d u \<noteq> []) (unit_set d obj)"
  from u ne have mem: "u \<in> set ?us" by simp
  then have "?us \<noteq> []" by (metis empty_iff list.set(1))
  then have "first_by_pk unit_id ?us \<noteq> None" by (simp only: first_by_pk_None not_False_eq_True)
  then obtain w where w: "first_by_pk unit_id ?us = Some w" by blast
  from first_by_pk_mem [OF w] have wm: "w \<in> set (unit_set d obj)" "unitimage_set d w \<noteq> []"
    by simp_all
  from first_by_pk_least [OF w mem] have "unit_id w \<le> unit_id u" .
  moreover from least wm have "unit_id u \<le> unit_id w" by blast
  ultimately have "unit_id w = unit_id u" by simp
  then have eq: "unitimage_set d w = unitimage_set d u" by (rule unitimage_set_cong)
  from first_row_order_by_desc_is_main_cases [OF s ne] obtain x where
    x: "x \<in> set (unitimage_set d u)"
       "first_row (order_by_desc_is_main d (unitimage_set d u)) = Some x"
       "(\<exists>i\<in>set (unitimage_set d u). is_main i) \<longrightarrow> is_main x" by blast
  from w eq x(2) have "get_image d obj = JStr (image_url x)" by (simp add: get_image_def)
  with x(1) x(3) show ?thesis by blast
qed

lemma get_image_null:
  assumes s: "\<forall>rows. set (row_order d rows) = set rows"
  shows "get_image d obj = JNull \<longleftrightarrow> (\<forall>u\<in>set (unit_set d obj). unitimage_set d u = [])"
proof (cases "first_by_pk unit_id (filter (\<lambda>u. unitimage_set d u \<noteq> []) (unit_set d obj))")
  case None
  then have "filter (\<lambda>u. unitimage_set d u \<noteq> []) (unit_set d obj) = []"
    by (simp only: first_by_pk_None)
  then have "\<forall>u\<in>set (unit_set d obj). unitimage_set d u = []"
    by (simp add: filter_empty_conv)
  with None show ?thesis by (simp add: get_image_def)
next
  case (Some w)
  from first_by_pk_mem [OF Some] have wm: "w \<in> set (unit_set d obj)" "unitimage_set d w \<noteq> []"
    by simp_all
  from s have "set (row_order d (unitimage_set d w)) = set (unitimage_set d w)" by blast
  from first_row_order_by_desc_is_main_cases [OF this wm(2)] obtain x where
    "first_row (order_by_desc_is_main d (unitimage_set d w)) = Some x" by blast
  with Some have "get_image d obj \<noteq> JNull" by (simp add: get_image_def)
  with wm show ?thesis by blast
qed

lemma shop_row_order: "row_order shop = (\<lambda>rows. rows)" "row_order shop_reversed = rev"
  by (simp_all add: shop_def shop_reversed_def)

lemma shop_reversed_sets:
  "unit_set shop_reversed hat = [hat_unit]"
  "unitimage_set shop_reversed hat_unit = [hat_side, hat_front]"
  "unit_set shop_reversed shirt = [shirt_red, shirt_blue]"
  "unitimage_set shop_reversed shirt_red = [red_picture]"
  "unitimage_set shop_reversed shirt_blue = [blue_picture]"
  by (simp_all add: shop_reversed_def unit_set_def unitimage_set_def shop_defs)

lemma run_validation_fields_ok:
  "sku_run_validation sp x = Inr s \<Longrightarrow> quantity_run_validation y = Inr n \<Longrightarrow>
     CartUnitSerializer_run_validation sp d x y = validate d \<lparr>cart_sku = s, cart_quantity = n\<rparr>"
  by (simp add: CartUnitSerializer_run_validation_def)

lemma run_validation_sku_refused:
  "sku_run_validation sp x = Inl msg \<Longrightarrow>
     CartUnitSerializer_run_validation sp d x y =
       Inl (FieldErrors ((''sku'', msg) # field_error ''quantity'' (quantity_run_validation y)))"
  by (cases "quantity_run_validation y")
     (simp_all add: CartUnitSerializer_run_validation_def field_error_def)

lemma run_validation_quantity_refused:
  "quantity_run_validation y = Inl msg \<Longrightarrow>
     CartUnitSerializer_run_validation sp d x y =
       Inl (FieldErrors (field_error ''sku'' (sku_run_validation sp x) @ [(''quantity'', msg)]))"
  by (cases "sku_run_validation sp x")
     (simp_all add: CartUnitSerializer_run_validation_def field_error_def)

lemma run_validation_accepted:
  "str_strip sp raw \<noteq> [] \<Longrightarrow> 1 \<le> q \<Longrightarrow>
     CartUnitSerializer_run_validation sp d (Some raw) (Some q) =
       validate d \<lparr>cart_sku = str_strip sp raw, cart_quantity = q\<rparr>"
  by (rule run_validation_fields_ok)
     (simp_all add: sku_run_validation_def quantity_run_validation_def)

lemma validate_cases:
  assumes dist: "distinct (map sku (units d))"
  shows "((\<forall>u\<in>set (units d). sku u \<noteq> s) \<longrightarrow>
           validate d \<lparr>cart_sku = s, cart_quantity = q\<rparr> =
             Inl (ValidationError ''Unit does not exist''))
      \<and> (\<forall>u\<in>set (units d). sku u = s \<and> num_in_stock u < q \<longrightarrow>
           validate d \<lparr>cart_sku = s, cart_quantity = q\<rparr> =
             Inl (ValidationError ''There are not enough units in stock''))
      \<and> (\<forall>u\<in>set (units d). sku u = s \<and> q \<le> num_in_stock u \<longrightarrow>
           validate d \<lparr>cart_sku = s, cart_quantity = q\<rparr> =
             Inr \<lparr>cart_sku = s, cart_quantity = q\<rparr>)"
proof (intro conjI impI ballI)
  assume "\<forall>u\<in>set (units d). sku u \<noteq> s"
  then have "objects_get (\<lambda>u. sku u = s) (units d) = Inl ObjectDoesNotExist"
    by (intro objects_get_none) blast
  then show "validate d \<lparr>cart_sku = s, cart_quantity = q\<rparr> =
             Inl (ValidationError ''Unit does not exist'')"
    by (simp add: validate_def)
next
  fix u
  assume u: "u \<in> set (units d)" and h: "sku u = s \<and> num_in_stock u < q"
  from objects_get_unique [OF dist u] h
  have "objects_get (\<lambda>x. sku x = s) (units d) = Inr u" by simp
  with h show "validate d \<lparr>cart_sku = s, cart_quantity = q\<rparr> =
             Inl (ValidationError ''There are not enough units in stock'')"
    by (simp add: validate_def)
next
  fix u
  assume u: "u \<in> set (units d)" and h: "sku u = s \<and> q \<le> num_in_stock u"
  from objects_get_unique [OF dist u] h
  have "objects_get (\<lambda>x. sku x = s) (units d) = Inr u" by simp
  with h show "validate d \<lparr>cart_sku = s, cart_quantity = q\<rparr> =
             Inr \<lparr>cart_sku = s, cart_quantity = q\<rparr>"
    by (simp add: validate_def)
qed

lemma validate_succeeds_iff:
  assumes dist: "distinct (map sku (units d))"
  shows "(\<exists>data. validate d \<lparr>cart_sku = s, cart_quantity = q\<rparr> = Inr data) \<longleftrightarrow>
         (\<exists>u\<in>set (units d). sku u = s \<and> q \<le> num_in_stock u)"
proof (cases "\<exists>u\<in>set (units d). sku u = s")
  case False
  with validate_cases [OF dist, of s q] show ?thesis by auto
next
  case True
  then obtain u where u: "u \<in> set (units d)" and su: "sku u = s" by blast
  from objects_get_unique [OF dist u] su
  have g: "objects_get (\<lambda>x. sku x = s) (units d) = Inr u" by simp
  have only: "v = u" if "v \<in> set (units d)" "sku v = s" for v
    using objects_get_unique [OF dist that(1)] that(2) g by simp
  show ?thesis
  proof (cases "q \<le> num_in_stock u")
    case True
    with g u su show ?thesis by (auto simp: validate_def)
  next
    case False
    with only have "\<not> (\<exists>v\<in>set (units d). sku v = s \<and> q \<le> num_in_stock v)" by blast
    with g False show ?thesis by (simp add: validate_def)
  qed
qed

lemma strip_examples:
  "str_strip ascii_space ''HAT'' = ''HAT''"
  "str_strip ascii_space '' HAT '' = ''HAT''"
  "str_strip ascii_space ''SCARF'' = ''SCARF''"
  "str_strip ascii_space ''   '' = []"
  "str_strip ascii_space [] = []"
  by code_simp+

lemma cart_examples:
  "CartUnitSerializer_run_validation ascii_space shop (Some ''HAT'') None =
     Inr \<lparr>cart_sku = ''HAT'', cart_quantity = 1\<rparr>"
  "CartUnitSerializer_run_validation ascii_space shop (Some '' HAT '') (Some 5) =
     Inr \<lparr>cart_sku = ''HAT'', cart_quantity = 5\<rparr>"
  "CartUnitSerializer_run_validation ascii_space shop (Some '' HAT '') (Some 1) =
     Inr \<lparr>cart_sku = ''HAT'', cart_quantity = 1\<rparr>"
  "CartUnitSerializer_run_validation ascii_space shop (Some ''HAT'') (Some 6) =
     Inl (ValidationError ''There are not enough units in stock'')"
  "CartUnitSerializer_run_validation ascii_space shop (Some ''SCARF'') (Some 1) =
     Inl (ValidationError ''Unit does not exist'')"
  "CartUnitSerializer_run_validation ascii_space shop (Some ''HAT'') (Some 0) =
     Inl (FieldErrors [(''quantity'', ''Ensure this value is greater than or equal to 1.'')])"
  "CartUnitSerializer_run_validation ascii_space shop (Some ''   '') (Some 1) =
     Inl (FieldErrors [(''sku'', ''This field may not be blank.'')])"
  "CartUnitSerializer_run_validation ascii_space shop None (Some 0) =
     Inl (FieldErrors [(''sku'', ''This field is required.''),
                       (''quantity'', ''Ensure this value is greater than or equal to 1.'')])"
  "CartUnitSerializer_run_validation ascii_space shop_blank_sku (Some []) (Some 1) =
     Inl (FieldErrors [(''sku'', ''This field may not be blank.'')])"
  by code_simp+











subsection \<open>Images of a unit\<close>



subsection \<open>The prices of a product\<close>

text \<open>
  C4. For a product with at least one unit, \<open>prices.min\<close> is the least and
  \<open>prices.max\<close> the greatest of the prices of its units; for a product with exactly
  one unit both are the price of that unit.
\<close>

theorem get_prices_min_max:
  "(unit_set d obj \<noteq> [] \<longrightarrow>
      get_prices d obj =
        JObj [(''min'', JNum (Min (price ` set (unit_set d obj)))),
              (''max'', JNum (Max (price ` set (unit_set d obj))))])
   \<and> (unit_set d obj2 = [u] \<longrightarrow>
      get_prices d obj2 = JObj [(''min'', JNum (price u)), (''max'', JNum (price u))])"
proof (intro conjI impI)
  assume "unit_set d obj \<noteq> []"
  then have ne: "map price (unit_set d obj) \<noteq> []" by simp
  show "get_prices d obj =
        JObj [(''min'', JNum (Min (price ` set (unit_set d obj)))),
              (''max'', JNum (Max (price ` set (unit_set d obj))))]"
    using aggregate_Max_eq [OF ne] aggregate_Min_eq [OF ne]
    by (simp add: get_prices_def Let_def json_of_number_def)
next
  assume "unit_set d obj2 = [u]"
  then show "get_prices d obj2 = JObj [(''min'', JNum (price u)), (''max'', JNum (price u))]"
    by (simp add: get_prices_def Let_def json_of_number_def aggregate_Max_def aggregate_Min_def)
qed

theorem get_prices_min_max_witness:
  "unit_set shop shirt \<noteq> []
   \<and> get_prices shop shirt = JObj [(''min'', JNum 1000), (''max'', JNum 1500)]
   \<and> unit_set shop hat = [hat_unit]
   \<and> get_prices shop hat = JObj [(''min'', JNum 700), (''max'', JNum 700)]"
proof -
  have p: "price shirt_red = 1000" "price shirt_blue = 1500" "price hat_unit = 700"
    by (simp_all add: shop_defs)
  show ?thesis
    using get_prices_min_max [of shop shirt hat hat_unit] p
    by (simp add: shop_unit_sets)
qed

subsection \<open>The detail view of a product\<close>

text \<open>
  C1, as the code has it. The detail view of a product has the fields \<open>id\<close>,
  \<open>title\<close>, \<open>tags\<close>, \<open>description\<close> and \<open>units\<close>, in that order: \<open>id\<close>,
  \<open>title\<close> and \<open>tags\<close> are those of the list view, and \<open>units\<close> is the list of
  the product's units, each as the unit serializer represents it. The \<open>prices\<close> and
  \<open>image\<close> fields of the list view are not part of it.
\<close>

theorem ProductSerializer_representation:
  "(map_result (UnitSerializer_to_representation d) (unit_set d obj) = Inr us \<longrightarrow>
      ProductSerializer_to_representation d obj =
        Inr (JObj [(''id'', JNum (int (product_id obj))),
                   (''title'', JStr (title obj)),
                   (''tags'', JList (map TagSerializer_to_representation (tag_set d obj))),
                   (''description'', JStr (description obj)),
                   (''units'', JList us)])
      \<and> representation_value (ProductSerializer_to_representation d obj) ''id'' =
          representation_value (ProductListSerializer_to_representation d obj) ''id''
      \<and> representation_value (ProductSerializer_to_representation d obj) ''title'' =
          representation_value (ProductListSerializer_to_representation d obj) ''title''
      \<and> representation_value (ProductSerializer_to_representation d obj) ''tags'' =
          representation_value (ProductListSerializer_to_representation d obj) ''tags'')
   \<and> ''prices'' \<notin> set (representation_keys (ProductSerializer_to_representation d obj))
   \<and> ''image'' \<notin> set (representation_keys (ProductSerializer_to_representation d obj))"
proof (intro conjI impI)
  have k: "set (representation_keys (ProductSerializer_to_representation d obj))
           \<subseteq> set ProductSerializer_fields"
    unfolding ProductSerializer_to_representation_def
    by (rule representation_keys_to_representation)
  show "''prices'' \<notin> set (representation_keys (ProductSerializer_to_representation d obj))"
    using k by (auto simp: ProductSerializer_fields_def)
  show "''image'' \<notin> set (representation_keys (ProductSerializer_to_representation d obj))"
    using k by (auto simp: ProductSerializer_fields_def)
next
  assume us: "map_result (UnitSerializer_to_representation d) (unit_set d obj) = Inr us"
  show r: "ProductSerializer_to_representation d obj =
        Inr (JObj [(''id'', JNum (int (product_id obj))),
                   (''title'', JStr (title obj)),
                   (''tags'', JList (map TagSerializer_to_representation (tag_set d obj))),
                   (''description'', JStr (description obj)),
                   (''units'', JList us)])"
    unfolding ProductSerializer_to_representation_def ProductSerializer_fields_def
    by (rule to_representation_5)
       (simp_all add: ProductSerializer_field_def ProductListSerializer_field_def us)
  have l: "ProductListSerializer_to_representation d obj =
        Inr (JObj [(''id'', JNum (int (product_id obj))),
                   (''title'', JStr (title obj)),
                   (''tags'', JList (map TagSerializer_to_representation (tag_set d obj))),
                   (''prices'', get_prices d obj),
                   (''image'', get_image d obj)])"
    unfolding ProductListSerializer_to_representation_def ProductListSerializer_fields_def
    by (rule to_representation_5) (simp_all add: ProductListSerializer_field_def)
  show "representation_value (ProductSerializer_to_representation d obj) ''id'' =
          representation_value (ProductListSerializer_to_representation d obj) ''id''"
    unfolding r l by (simp add: representation_value_def)
  show "representation_value (ProductSerializer_to_representation d obj) ''title'' =
          representation_value (ProductListSerializer_to_representation d obj) ''title''"
    unfolding r l by (simp add: representation_value_def)
  show "representation_value (ProductSerializer_to_representation d obj) ''tags'' =
          representation_value (ProductListSerializer_to_representation d obj) ''tags''"
    unfolding r l by (simp add: representation_value_def)
qed

theorem ProductSerializer_representation_witness:
  "map_result (UnitSerializer_to_representation shop) (unit_set shop shirt) = Inr shirt_units_json
   \<and> ProductSerializer_to_representation shop shirt =
     Inr (JObj [(''id'', JNum 1), (''title'', JStr ''Shirt''),
                (''tags'', JList [JStr ''clothes'']),
                (''description'', JStr ''A cotton shirt''),
                (''units'', JList shirt_units_json)])"
proof -
  have t: "tag_set shop shirt = [\<lparr>tag_name = ''clothes'', tag_products = [1, 2]\<rparr>]"
    by (simp add: tag_set_def shop_defs)
  have p: "product_id shirt = 1" "title shirt = ''Shirt''" "description shirt = ''A cotton shirt''"
    by (simp_all add: shop_defs)
  show ?thesis
    using ProductSerializer_representation [of shop shirt shirt_units_json] shirt_units_serialized
    by (simp add: t p TagSerializer_to_representation_def)
qed

text \<open>
  The claim as stated fails: the detail view of the shirt has neither \<open>prices\<close> nor
  \<open>image\<close>, which its list view has.
\<close>

theorem ProductSerializer_prices_image_counterexample:
  "representation_keys (ProductListSerializer_to_representation shop shirt) =
     [''id'', ''title'', ''tags'', ''prices'', ''image'']
   \<and> representation_keys (ProductSerializer_to_representation shop shirt) =
     [''id'', ''title'', ''tags'', ''description'', ''units'']
   \<and> representation_value (ProductSerializer_to_representation shop shirt) ''prices'' = None
   \<and> representation_value (ProductSerializer_to_representation shop shirt) ''image'' = None"
  unfolding shirt_detail shirt_list
  by (simp add: representation_keys_def representation_value_def)

subsection \<open>The number of units of an order\<close>

text \<open>
  C3. The \<open>units_num\<close> field of the list view of an order is the number of order
  lines of that order, when every line refers to a unit and primary keys of units are
  unique (which the foreign key and the primary key of the tables enforce).
\<close>

theorem get_units_num_count:
  "distinct (map unit_id (units d))
   \<and> (\<forall>ou\<in>set (orderunit_set d obj). orderunit_unit ou \<in> unit_id ` set (units d))
   \<longrightarrow> get_units_num d obj = JNum (int (length (orderunit_set d obj)))
     \<and> representation_value (OrderListSerializer_to_representation d obj) ''units_num'' =
         Some (JNum (int (length (filter (\<lambda>ou. orderunit_order ou = order_id obj) (orderunits d)))))"
proof (intro impI)
  assume h: "distinct (map unit_id (units d))
   \<and> (\<forall>ou\<in>set (orderunit_set d obj). orderunit_unit ou \<in> unit_id ` set (units d))"
  then have "\<forall>ou\<in>set (orderunit_set d obj).
      length (filter (\<lambda>u. unit_id u = orderunit_unit ou) (units d)) = 1"
    using filter_key_single [of unit_id "units d"] by blast
  then have "length (order_unit_set d obj) = length (orderunit_set d obj)"
    unfolding order_unit_set_def by (rule length_concat_singletons)
  then have n: "get_units_num d obj = JNum (int (length (orderunit_set d obj)))"
    by (simp add: get_units_num_def)
  have "representation_value (OrderListSerializer_to_representation d obj) ''units_num'' =
         Some (get_units_num d obj)"
    by (simp add: OrderListSerializer_to_representation_def OrderListSerializer_fields_def
        OrderListSerializer_field_def to_representation_def representation_value_def)
  with n show "get_units_num d obj = JNum (int (length (orderunit_set d obj)))
     \<and> representation_value (OrderListSerializer_to_representation d obj) ''units_num'' =
         Some (JNum (int (length (filter (\<lambda>ou. orderunit_order ou = order_id obj) (orderunits d)))))"
    by (simp add: orderunit_set_def)
qed

theorem get_units_num_count_witness:
  "distinct (map unit_id (units shop))
   \<and> orderunit_set shop first_order = [shirt_line, hat_line]
   \<and> orderunit_unit shirt_line \<in> unit_id ` set (units shop)
   \<and> orderunit_unit hat_line \<in> unit_id ` set (units shop)
   \<and> get_units_num shop first_order = JNum 2"
proof -
  have u: "map unit_id (units shop) = [1, 2, 3, 4]" by (simp add: shop_defs)
  have l: "orderunit_unit shirt_line = 1" "orderunit_unit hat_line = 3" by (simp_all add: shop_defs)
  have i: "unit_id ` set (units shop) = {1, 2, 3, 4}" using u by (metis list.set_map list.simps(15) set_empty2 empty_set)
  show ?thesis
    using get_units_num_count [of shop first_order]
    by (simp add: shop_orderunit_set u l i)
qed

subsection \<open>The price of an order line\<close>

text \<open>
  C6. The unit entry of an order line reports the price stored on the line
  (\<open>unit_price\<close>), whatever the price of the unit it refers to: in any two states of
  the database in which the entry is produced, so before and after a change of the
  unit's price, the reported price is the same, the one of the line.
\<close>

theorem get_unit_historical_price:
  "get_unit d obj = Inr r \<and> get_unit d' obj = Inr r'
   \<longrightarrow> representation_value (Inr r) ''price'' = Some (JNum (unit_price obj))
     \<and> representation_value (Inr r') ''price'' = representation_value (Inr r) ''price''"
  using get_unit_price [of d obj r] get_unit_price [of d' obj r'] by simp

theorem get_unit_historical_price_witness:
  "get_unit shop shirt_line = Inr (shirt_line_json 800)
   \<and> get_unit shop_repriced shirt_line = Inr (shirt_line_json 800)
   \<and> UnitForOrderDetail_data shop_repriced (shirt_red\<lparr>price := 1200\<rparr>) = Inr (shirt_line_json 1200)
   \<and> representation_value (Inr (shirt_line_json 800)) ''price'' = Some (JNum 800)"
proof -
  have p: "unit_price shirt_line = 800" by (simp add: shop_defs)
  show ?thesis
    using get_unit_historical_price
      [of shop shirt_line "shirt_line_json 800" shop_repriced "shirt_line_json 800"]
    by (simp add: shirt_line_unit shirt_line_unit_repriced shirt_red_data p)
qed

subsection \<open>The staff group\<close>

text \<open>
  C10. When exactly one group named \<open>Staff\<close> exists, \<open>get_staff_group\<close> returns
  it and leaves the database as it is: no permission is added, so the group has the
  permissions it had, possibly none. When no group of that name exists and the call
  returns, it has created the group and the new group has every permission of the
  fixed set.
\<close>

theorem get_staff_group_existing_unchanged:
  "(filter (\<lambda>g. group_name g = ''Staff'') (groups d) = [g] \<longrightarrow>
      get_staff_group d = Inr (g, d))
   \<and> ((\<forall>x\<in>set (groups d2). group_name x \<noteq> ''Staff'') \<and> get_staff_group d2 = Inr (g', d') \<longrightarrow>
        group_name g' = ''Staff'' \<and> groups d' = groups d2 @ [g']
      \<and> set staff_codenames \<subseteq> set (group_codenames d' g'))"
proof (intro conjI impI)
  assume "filter (\<lambda>g. group_name g = ''Staff'') (groups d) = [g]"
  then show "get_staff_group d = Inr (g, d)" by (rule get_staff_group_existing)
next
  assume h: "(\<forall>x\<in>set (groups d2). group_name x \<noteq> ''Staff'') \<and> get_staff_group d2 = Inr (g', d')"
  then have n: "\<forall>x\<in>set (groups d2). group_name x \<noteq> ''Staff''"
    and r: "get_staff_group d2 = Inr (g', d')" by (rule conjunct1, rule conjunct2)
  from get_staff_group_created(1) [OF n r] show "group_name g' = ''Staff''" by simp
  from get_staff_group_created(2) [OF n r] show "groups d' = groups d2 @ [g']" .
  from get_staff_group_created(7) [OF n r]
  show "set staff_codenames \<subseteq> set (group_codenames d' g')" .
qed

theorem get_staff_group_existing_unchanged_witness:
  "filter (\<lambda>g. group_name g = ''Staff'') (groups shop_with_staff) = [staff_group]
   \<and> get_staff_group shop_with_staff = Inr (staff_group, shop_with_staff)
   \<and> group_codenames shop_with_staff staff_group = []
   \<and> groups shop = []
   \<and> get_staff_group shop = Inr (staff_group, shop_staffed)
   \<and> groups shop_staffed = [staff_group]
   \<and> set staff_codenames \<subseteq> set (group_codenames shop_staffed staff_group)"
proof -
  have a: "filter (\<lambda>g. group_name g = ''Staff'') (groups shop_with_staff) = [staff_group]"
    by (simp add: shop_with_staff_def staff_group_def)
  have b: "group_codenames shop_with_staff staff_group = []"
    by (simp add: group_codenames_def shop_with_staff_def shop_facts)
  have c: "groups shop_staffed = [staff_group]" by (simp add: shop_staffed_def)
  show ?thesis
    using get_staff_group_existing_unchanged
      [of shop_with_staff staff_group shop staff_group shop_staffed]
    by (simp add: a b c shop_facts shop_get_staff_group)
qed

subsection \<open>Two sellers and the staff group\<close>

text \<open>
  C7, as the code has it. Starting from a database without a group named \<open>Staff\<close>,
  after two seller creations that succeed, one after the other, exactly one group
  named \<open>Staff\<close> exists; it has every permission of the fixed set and both new
  users belong to it.
\<close>

theorem SellerSerializer_create_twice:
  "(\<forall>x\<in>set (groups d). group_name x \<noteq> ''Staff'')
   \<and> SellerSerializer_create mk d v1 = Inr (u1, d1)
   \<and> SellerSerializer_create mk d1 v2 = Inr (u2, d2)
   \<longrightarrow> (\<exists>g. filter (\<lambda>x. group_name x = ''Staff'') (groups d2) = [g]
          \<and> set staff_codenames \<subseteq> set (group_codenames d2 g)
          \<and> (user_id u1, group_id g) \<in> set (user_groups d2)
          \<and> (user_id u2, group_id g) \<in> set (user_groups d2))"
proof (intro impI)
  assume h: "(\<forall>x\<in>set (groups d). group_name x \<noteq> ''Staff'')
   \<and> SellerSerializer_create mk d v1 = Inr (u1, d1)
   \<and> SellerSerializer_create mk d1 v2 = Inr (u2, d2)"
  then have none: "\<forall>x\<in>set (groups d). group_name x \<noteq> ''Staff''"
    and c1: "SellerSerializer_create mk d v1 = Inr (u1, d1)"
    and c2: "SellerSerializer_create mk d1 v2 = Inr (u2, d2)"
    by (rule conjunct1, rule conjunct2 [THEN conjunct1], rule conjunct2 [THEN conjunct2])
  from SellerSerializer_create_Inr [OF c1] obtain usr1 g dB where
    g1: "get_staff_group (d\<lparr>users := users d @ [usr1]\<rparr>) = Inr (g, dB)"
    and f1: "user_id u1 = user_id usr1" "groups d1 = groups dB" "permissions d1 = permissions dB"
      "group_permissions d1 = group_permissions dB"
      "user_groups d1 = related_add (user_groups dB) (user_id usr1, group_id g)"
    by blast
  from none have none': "\<forall>x\<in>set (groups (d\<lparr>users := users d @ [usr1]\<rparr>)). group_name x \<noteq> ''Staff''"
    by simp
  from get_staff_group_created(1) [OF none' g1] have gn: "group_name g = ''Staff''" by simp
  from get_staff_group_created(2) [OF none' g1] have gs: "groups dB = groups d @ [g]" by simp
  from get_staff_group_created(7) [OF none' g1]
  have cs: "set staff_codenames \<subseteq> set (group_codenames dB g)" .
  from none have "filter (\<lambda>x. group_name x = ''Staff'') (groups d) = []"
    by (simp add: filter_empty_conv)
  with gs gn f1(2) have one1: "filter (\<lambda>x. group_name x = ''Staff'') (groups d1) = [g]" by simp
  from f1(5) have m1: "(user_id u1, group_id g) \<in> set (user_groups d1)"
    by (simp add: related_add_def f1(1))
  from SellerSerializer_create_Inr [OF c2] obtain usr2 g2 dC where
    g2: "get_staff_group (d1\<lparr>users := users d1 @ [usr2]\<rparr>) = Inr (g2, dC)"
    and f2: "user_id u2 = user_id usr2" "groups d2 = groups dC" "permissions d2 = permissions dC"
      "group_permissions d2 = group_permissions dC"
      "user_groups d2 = related_add (user_groups dC) (user_id usr2, group_id g2)"
    by blast
  from one1 have "filter (\<lambda>x. group_name x = ''Staff'') (groups (d1\<lparr>users := users d1 @ [usr2]\<rparr>)) = [g]"
    by simp
  from get_staff_group_existing [OF this] g2
  have e: "g2 = g" "dC = d1\<lparr>users := users d1 @ [usr2]\<rparr>" by simp_all
  from e f2 one1 have one2: "filter (\<lambda>x. group_name x = ''Staff'') (groups d2) = [g]" by simp
  from e f2 f1 have "group_codenames d2 g = group_codenames dB g"
    by (intro group_codenames_cong) simp_all
  with cs have cs2: "set staff_codenames \<subseteq> set (group_codenames d2 g)" by simp
  from e f2(5) have ug: "user_groups d2 = related_add (user_groups d1) (user_id usr2, group_id g)"
    by simp
  with m1 have m1': "(user_id u1, group_id g) \<in> set (user_groups d2)"
    by (simp add: related_add_def)
  from ug f2(1) have m2: "(user_id u2, group_id g) \<in> set (user_groups d2)"
    by (simp add: related_add_def)
  from one2 cs2 m1' m2 show "\<exists>g. filter (\<lambda>x. group_name x = ''Staff'') (groups d2) = [g]
          \<and> set staff_codenames \<subseteq> set (group_codenames d2 g)
          \<and> (user_id u1, group_id g) \<in> set (user_groups d2)
          \<and> (user_id u2, group_id g) \<in> set (user_groups d2)" by blast
qed

theorem SellerSerializer_create_twice_witness:
  "groups shop = []
   \<and> SellerSerializer_create example_hasher shop ann = Inr (ann_user, one_seller shop_staffed)
   \<and> SellerSerializer_create example_hasher (one_seller shop_staffed) bob =
       Inr (bob_user, two_sellers shop_staffed)
   \<and> filter (\<lambda>x. group_name x = ''Staff'') (groups (two_sellers shop_staffed)) = [staff_group]
   \<and> group_codenames (two_sellers shop_staffed) staff_group = staff_codenames
   \<and> user_groups (two_sellers shop_staffed) = [(1, 1), (2, 1)]"
proof -
  have a: "filter (\<lambda>x. group_name x = ''Staff'') (groups (two_sellers shop_staffed)) = [staff_group]"
    by (simp add: two_sellers_def shop_staffed_def staff_group_def)
  have b: "user_groups (two_sellers shop_staffed) = [(1, 1), (2, 1)]"
    by (simp add: two_sellers_def)
  show ?thesis
    using SellerSerializer_create_twice
      [of shop example_hasher ann ann_user "one_seller shop_staffed" bob bob_user
          "two_sellers shop_staffed"]
    by (simp add: shop_facts create_ann_in_shop create_bob_after_ann a b staffed_codenames)
qed

text \<open>
  The claim as stated fails for a database where a group named \<open>Staff\<close> exists
  before the first seller is created: both creations succeed and the only \<open>Staff\<close>
  group still has no permission.
\<close>

theorem SellerSerializer_create_twice_counterexample:
  "SellerSerializer_create example_hasher shop_with_staff ann =
     Inr (ann_user, one_seller shop_with_staff)
   \<and> SellerSerializer_create example_hasher (one_seller shop_with_staff) bob =
       Inr (bob_user, two_sellers shop_with_staff)
   \<and> filter (\<lambda>x. group_name x = ''Staff'') (groups (two_sellers shop_with_staff)) = [staff_group]
   \<and> group_codenames (two_sellers shop_with_staff) staff_group = []
   \<and> ''add_unit'' \<in> set staff_codenames
   \<and> \<not> set staff_codenames \<subseteq> set (group_codenames (two_sellers shop_with_staff) staff_group)"
proof -
  have a: "filter (\<lambda>x. group_name x = ''Staff'') (groups (two_sellers shop_with_staff)) = [staff_group]"
    by (simp add: two_sellers_def shop_with_staff_def staff_group_def)
  have b: "group_codenames (two_sellers shop_with_staff) staff_group = []"
    by (simp add: group_codenames_def two_sellers_def shop_with_staff_def shop_facts)
  have c: "''add_unit'' \<in> set staff_codenames" by (simp add: staff_codenames_eval)
  from c have d: "\<not> set staff_codenames \<subseteq> set ([] :: string list)" by auto
  show ?thesis
    by (simp only: create_ann_with_staff create_bob_with_staff a b c d simp_thms)
qed

subsection \<open>The picture of a product\<close>

text \<open>
  C2, as the code has it. Whatever order the database hands rows over in: the
  \<open>image\<close> field of a product is \<^verbatim>\<open>None\<close> exactly when none of its units has an
  image (so also when it has no unit). Otherwise it is the URL of an image of one unit
  only, the unit of least primary key among those that have an image: of a
  main-flagged image of that unit if it has one, so of its main-flagged image,
  whatever the order of that unit's images, when all its main-flagged images share one
  URL. Which of several main-flagged images, or of several images when none is
  flagged, is the database's choice.
\<close>

theorem get_image_first_unit_with_images:
  "(\<forall>rows. set (row_order d rows) = set rows) \<longrightarrow>
     (get_image d obj = JNull \<longleftrightarrow> (\<forall>v\<in>set (unit_set d obj). unitimage_set d v = []))
   \<and> (u \<in> set (unit_set d obj) \<and> unitimage_set d u \<noteq> []
        \<and> (\<forall>v\<in>set (unit_set d obj). unitimage_set d v \<noteq> [] \<longrightarrow> unit_id u \<le> unit_id v)
      \<longrightarrow> ((\<exists>i\<in>set (unitimage_set d u). is_main i) \<longrightarrow>
             (\<exists>x\<in>set (unitimage_set d u). is_main x \<and> get_image d obj = JStr (image_url x)))
        \<and> (m \<in> set (unitimage_set d u) \<and> is_main m
             \<and> (\<forall>i\<in>set (unitimage_set d u). is_main i \<longrightarrow> image_url i = image_url m)
            \<longrightarrow> get_image d obj = JStr (image_url m))
        \<and> (\<exists>x\<in>set (unitimage_set d u). get_image d obj = JStr (image_url x)))"
proof (intro conjI impI)
  assume s: "\<forall>rows. set (row_order d rows) = set rows"
  then show "get_image d obj = JNull \<longleftrightarrow> (\<forall>v\<in>set (unit_set d obj). unitimage_set d v = [])"
    by (rule get_image_null)
next
  assume s: "\<forall>rows. set (row_order d rows) = set rows"
    and h: "u \<in> set (unit_set d obj) \<and> unitimage_set d u \<noteq> []
        \<and> (\<forall>v\<in>set (unit_set d obj). unitimage_set d v \<noteq> [] \<longrightarrow> unit_id u \<le> unit_id v)"
    and e: "\<exists>i\<in>set (unitimage_set d u). is_main i"
  from s have s': "set (row_order d (unitimage_set d u)) = set (unitimage_set d u)" by blast
  from h have h1: "u \<in> set (unit_set d obj)" and h2: "unitimage_set d u \<noteq> []"
    and h3: "\<forall>v\<in>set (unit_set d obj). unitimage_set d v \<noteq> [] \<longrightarrow> unit_id u \<le> unit_id v"
    by (rule conjunct1, rule conjunct2 [THEN conjunct1], rule conjunct2 [THEN conjunct2])
  from get_image_at_first [OF s' h1 h2 h3] e
  show "\<exists>x\<in>set (unitimage_set d u). is_main x \<and> get_image d obj = JStr (image_url x)"
    by blast
next
  assume s: "\<forall>rows. set (row_order d rows) = set rows"
    and h: "u \<in> set (unit_set d obj) \<and> unitimage_set d u \<noteq> []
        \<and> (\<forall>v\<in>set (unit_set d obj). unitimage_set d v \<noteq> [] \<longrightarrow> unit_id u \<le> unit_id v)"
    and m: "m \<in> set (unitimage_set d u) \<and> is_main m
             \<and> (\<forall>i\<in>set (unitimage_set d u). is_main i \<longrightarrow> image_url i = image_url m)"
  from s have s': "set (row_order d (unitimage_set d u)) = set (unitimage_set d u)" by blast
  from h have h1: "u \<in> set (unit_set d obj)" and h2: "unitimage_set d u \<noteq> []"
    and h3: "\<forall>v\<in>set (unit_set d obj). unitimage_set d v \<noteq> [] \<longrightarrow> unit_id u \<le> unit_id v"
    by (rule conjunct1, rule conjunct2 [THEN conjunct1], rule conjunct2 [THEN conjunct2])
  from get_image_at_first [OF s' h1 h2 h3] obtain x where
    x: "x \<in> set (unitimage_set d u)" "get_image d obj = JStr (image_url x)"
       "(\<exists>i\<in>set (unitimage_set d u). is_main i) \<longrightarrow> is_main x" by blast
  from m x(3) have "is_main x" by blast
  with m x(1) have "image_url x = image_url m" by blast
  with x(2) show "get_image d obj = JStr (image_url m)" by (simp only:)
next
  assume s: "\<forall>rows. set (row_order d rows) = set rows"
    and h: "u \<in> set (unit_set d obj) \<and> unitimage_set d u \<noteq> []
        \<and> (\<forall>v\<in>set (unit_set d obj). unitimage_set d v \<noteq> [] \<longrightarrow> unit_id u \<le> unit_id v)"
  from s have s': "set (row_order d (unitimage_set d u)) = set (unitimage_set d u)" by blast
  from h have h1: "u \<in> set (unit_set d obj)" and h2: "unitimage_set d u \<noteq> []"
    and h3: "\<forall>v\<in>set (unit_set d obj). unitimage_set d v \<noteq> [] \<longrightarrow> unit_id u \<le> unit_id v"
    by (rule conjunct1, rule conjunct2 [THEN conjunct1], rule conjunct2 [THEN conjunct2])
  from get_image_at_first [OF s' h1 h2 h3]
  show "\<exists>x\<in>set (unitimage_set d u). get_image d obj = JStr (image_url x)" by blast
qed

theorem get_image_first_unit_with_images_witness:
  "(\<forall>rows. set (row_order shop rows) = set rows)
   \<and> (\<forall>rows. set (row_order shop_reversed rows) = set rows)
   \<and> get_image shop bag = JNull
   \<and> hat_unit \<in> set (unit_set shop hat) \<and> unitimage_set shop hat_unit = [hat_side, hat_front]
   \<and> is_main hat_front \<and> \<not> is_main hat_side
   \<and> get_image shop hat = JStr ''/media/hat-front.jpg''
   \<and> get_image shop_reversed hat = JStr ''/media/hat-front.jpg''
   \<and> shirt_red \<in> set (unit_set shop shirt) \<and> unitimage_set shop shirt_red = [red_picture]
   \<and> get_image shop shirt = JStr ''/media/red.jpg''"
proof -
  have m: "is_main hat_front" "\<not> is_main hat_side" "\<not> is_main red_picture"
    "image_url hat_front = ''/media/hat-front.jpg''" "image_url red_picture = ''/media/red.jpg''"
    by (simp_all add: shop_defs)
  have i: "unit_id shirt_red \<le> unit_id shirt_blue" by (simp add: shop_defs)
  show ?thesis
    using get_image_first_unit_with_images [of shop bag hat_unit hat_front]
      get_image_first_unit_with_images [of shop hat hat_unit hat_front]
      get_image_first_unit_with_images [of shop_reversed hat hat_unit hat_front]
      get_image_first_unit_with_images [of shop shirt shirt_red red_picture] m i
    by (simp add: shop_unit_sets shop_unitimage_sets shop_reversed_sets shop_row_order)
qed

text \<open>
  The claim as stated fails: the shirt has a main-flagged picture, on its second
  unit, and the field is the unflagged picture of its first unit, in either order of
  the rows.
\<close>

theorem get_image_main_of_other_unit_counterexample:
  "blue_picture \<in> set (concat (map (unitimage_set shop) (unit_set shop shirt)))
   \<and> is_main blue_picture
   \<and> get_image shop shirt = JStr ''/media/red.jpg''
   \<and> get_image shop_reversed shirt = JStr ''/media/red.jpg''
   \<and> get_image shop shirt \<noteq> JStr (image_url blue_picture)"
proof -
  have "get_image shop shirt = JStr ''/media/red.jpg''"
    by (simp add: get_image_def shop_unit_sets shop_unitimage_sets first_by_pk_def first_row_def
        order_by_desc_is_main_def shop_row_order) (simp add: shop_defs)
  moreover have "get_image shop_reversed shirt = JStr ''/media/red.jpg''"
    by (simp add: get_image_def shop_reversed_sets first_by_pk_def first_row_def
        order_by_desc_is_main_def shop_row_order) (simp add: shop_defs)
  moreover have "is_main blue_picture" "image_url blue_picture = ''/media/blue.jpg''"
    by (simp_all add: shop_defs)
  ultimately show ?thesis by (simp add: shop_unit_sets shop_unitimage_sets)
qed

subsection \<open>Validation of a cart entry\<close>

text \<open>
  C5, as the code has it. With unique SKUs, a cart entry \<open>{sku, quantity}\<close> is
  validated as follows. An absent quantity is the quantity 1. The entry is refused by
  its fields when the SKU is absent, when the SKU is blank once the white space at its
  ends is stripped, and when the quantity is below 1. For a SKU that is not blank when
  stripped and a quantity of at least 1, validation fails with the message
  \<open>Unit does not exist\<close> when no unit has the stripped SKU, fails with the message
  \<open>There are not enough units in stock\<close> when the quantity exceeds the stock of the
  unit of that SKU, and otherwise succeeds, returning the stripped SKU and the
  quantity. So validation succeeds exactly when the stripped SKU is not blank, the
  quantity is at least 1, and some unit has the stripped SKU and a stock of at least
  the quantity.
\<close>

theorem CartUnitSerializer_validation:
  "distinct (map sku (units d)) \<longrightarrow>
     CartUnitSerializer_run_validation sp d x None =
       CartUnitSerializer_run_validation sp d x (Some 1)
   \<and> (\<exists>errs. CartUnitSerializer_run_validation sp d None y = Inl (FieldErrors errs)
          \<and> (''sku'', ''This field is required.'') \<in> set errs)
   \<and> (str_strip sp raw = [] \<longrightarrow>
        (\<exists>errs. CartUnitSerializer_run_validation sp d (Some raw) y = Inl (FieldErrors errs)
           \<and> (''sku'', ''This field may not be blank.'') \<in> set errs))
   \<and> (q < 1 \<longrightarrow>
        (\<exists>errs. CartUnitSerializer_run_validation sp d x (Some q) = Inl (FieldErrors errs)
           \<and> (''quantity'', ''Ensure this value is greater than or equal to 1.'') \<in> set errs))
   \<and> (str_strip sp raw \<noteq> [] \<and> 1 \<le> q \<longrightarrow>
        ((\<forall>u\<in>set (units d). sku u \<noteq> str_strip sp raw) \<longrightarrow>
           CartUnitSerializer_run_validation sp d (Some raw) (Some q) =
             Inl (ValidationError ''Unit does not exist''))
      \<and> (\<forall>u\<in>set (units d). sku u = str_strip sp raw \<and> num_in_stock u < q \<longrightarrow>
           CartUnitSerializer_run_validation sp d (Some raw) (Some q) =
             Inl (ValidationError ''There are not enough units in stock''))
      \<and> (\<forall>u\<in>set (units d). sku u = str_strip sp raw \<and> q \<le> num_in_stock u \<longrightarrow>
           CartUnitSerializer_run_validation sp d (Some raw) (Some q) =
             Inr \<lparr>cart_sku = str_strip sp raw, cart_quantity = q\<rparr>))
   \<and> ((\<exists>data. CartUnitSerializer_run_validation sp d (Some raw) (Some q) = Inr data) \<longleftrightarrow>
        str_strip sp raw \<noteq> [] \<and> 1 \<le> q
        \<and> (\<exists>u\<in>set (units d). sku u = str_strip sp raw \<and> q \<le> num_in_stock u))"
proof (intro impI conjI)
  show "CartUnitSerializer_run_validation sp d x None =
       CartUnitSerializer_run_validation sp d x (Some 1)"
    by (simp add: CartUnitSerializer_run_validation_def quantity_run_validation_def)
next
  have "sku_run_validation sp None = Inl ''This field is required.''"
    by (simp add: sku_run_validation_def)
  from run_validation_sku_refused [OF this]
  show "\<exists>errs. CartUnitSerializer_run_validation sp d None y = Inl (FieldErrors errs)
          \<and> (''sku'', ''This field is required.'') \<in> set errs"
    by simp
next
  assume "str_strip sp raw = []"
  then have "sku_run_validation sp (Some raw) = Inl ''This field may not be blank.''"
    by (simp add: sku_run_validation_def)
  from run_validation_sku_refused [OF this]
  show "\<exists>errs. CartUnitSerializer_run_validation sp d (Some raw) y = Inl (FieldErrors errs)
           \<and> (''sku'', ''This field may not be blank.'') \<in> set errs"
    by simp
next
  assume "q < 1"
  then have "quantity_run_validation (Some q) =
      Inl ''Ensure this value is greater than or equal to 1.''"
    by (simp add: quantity_run_validation_def)
  from run_validation_quantity_refused [OF this]
  show "\<exists>errs. CartUnitSerializer_run_validation sp d x (Some q) = Inl (FieldErrors errs)
           \<and> (''quantity'', ''Ensure this value is greater than or equal to 1.'') \<in> set errs"
    by simp
next
  assume dist: "distinct (map sku (units d))" and h: "str_strip sp raw \<noteq> [] \<and> 1 \<le> q"
    and a: "\<forall>u\<in>set (units d). sku u \<noteq> str_strip sp raw"
  from h have r: "CartUnitSerializer_run_validation sp d (Some raw) (Some q) =
      validate d \<lparr>cart_sku = str_strip sp raw, cart_quantity = q\<rparr>"
    by (intro run_validation_accepted) simp_all
  from validate_cases [OF dist, of "str_strip sp raw" q] a
  show "CartUnitSerializer_run_validation sp d (Some raw) (Some q) =
             Inl (ValidationError ''Unit does not exist'')"
    unfolding r by blast
next
  assume dist: "distinct (map sku (units d))" and h: "str_strip sp raw \<noteq> [] \<and> 1 \<le> q"
  from h have r: "CartUnitSerializer_run_validation sp d (Some raw) (Some q) =
      validate d \<lparr>cart_sku = str_strip sp raw, cart_quantity = q\<rparr>"
    by (intro run_validation_accepted) simp_all
  from validate_cases [OF dist, of "str_strip sp raw" q]
  show "\<forall>u\<in>set (units d). sku u = str_strip sp raw \<and> num_in_stock u < q \<longrightarrow>
           CartUnitSerializer_run_validation sp d (Some raw) (Some q) =
             Inl (ValidationError ''There are not enough units in stock'')"
    unfolding r by blast
next
  assume dist: "distinct (map sku (units d))" and h: "str_strip sp raw \<noteq> [] \<and> 1 \<le> q"
  from h have r: "CartUnitSerializer_run_validation sp d (Some raw) (Some q) =
      validate d \<lparr>cart_sku = str_strip sp raw, cart_quantity = q\<rparr>"
    by (intro run_validation_accepted) simp_all
  from validate_cases [OF dist, of "str_strip sp raw" q]
  show "\<forall>u\<in>set (units d). sku u = str_strip sp raw \<and> q \<le> num_in_stock u \<longrightarrow>
           CartUnitSerializer_run_validation sp d (Some raw) (Some q) =
             Inr \<lparr>cart_sku = str_strip sp raw, cart_quantity = q\<rparr>"
    unfolding r by blast
next
  assume dist: "distinct (map sku (units d))"
  show "(\<exists>data. CartUnitSerializer_run_validation sp d (Some raw) (Some q) = Inr data) \<longleftrightarrow>
        str_strip sp raw \<noteq> [] \<and> 1 \<le> q
        \<and> (\<exists>u\<in>set (units d). sku u = str_strip sp raw \<and> q \<le> num_in_stock u)"
  proof (cases "str_strip sp raw \<noteq> [] \<and> 1 \<le> q")
    case True
    then have "sku_run_validation sp (Some raw) = Inr (str_strip sp raw)"
      and "quantity_run_validation (Some q) = Inr q"
      by (simp_all add: sku_run_validation_def quantity_run_validation_def)
    from run_validation_fields_ok [OF this]
    have r: "CartUnitSerializer_run_validation sp d (Some raw) (Some q) =
        validate d \<lparr>cart_sku = str_strip sp raw, cart_quantity = q\<rparr>" .
    from True validate_succeeds_iff [OF dist, of "str_strip sp raw" q] show ?thesis
      unfolding r by blast
  next
    case False
    show ?thesis
    proof (cases "str_strip sp raw = []")
      case True
      then have "sku_run_validation sp (Some raw) = Inl ''This field may not be blank.''"
        by (simp add: sku_run_validation_def)
      from run_validation_sku_refused [OF this] True show ?thesis by simp
    next
      case ne: False
      with False have "q < 1" by simp
      then have "quantity_run_validation (Some q) =
          Inl ''Ensure this value is greater than or equal to 1.''"
        by (simp add: quantity_run_validation_def)
      from run_validation_quantity_refused [OF this] \<open>q < 1\<close> show ?thesis by simp
    qed
  qed
qed

theorem CartUnitSerializer_validation_witness:
  "distinct (map sku (units shop))
   \<and> CartUnitSerializer_run_validation ascii_space shop (Some ''HAT'') None =
       Inr \<lparr>cart_sku = ''HAT'', cart_quantity = 1\<rparr>
   \<and> str_strip ascii_space '' HAT '' = ''HAT''
   \<and> hat_unit \<in> set (units shop) \<and> sku hat_unit = ''HAT'' \<and> num_in_stock hat_unit = 5
   \<and> CartUnitSerializer_run_validation ascii_space shop (Some '' HAT '') (Some 5) =
       Inr \<lparr>cart_sku = ''HAT'', cart_quantity = 5\<rparr>
   \<and> CartUnitSerializer_run_validation ascii_space shop (Some ''HAT'') (Some 6) =
       Inl (ValidationError ''There are not enough units in stock'')
   \<and> ''SCARF'' \<notin> set (map sku (units shop))
   \<and> CartUnitSerializer_run_validation ascii_space shop (Some ''SCARF'') (Some 1) =
       Inl (ValidationError ''Unit does not exist'')
   \<and> CartUnitSerializer_run_validation ascii_space shop (Some ''HAT'') (Some 0) =
       Inl (FieldErrors [(''quantity'', ''Ensure this value is greater than or equal to 1.'')])
   \<and> str_strip ascii_space ''   '' = []
   \<and> CartUnitSerializer_run_validation ascii_space shop (Some ''   '') (Some 1) =
       Inl (FieldErrors [(''sku'', ''This field may not be blank.'')])"
proof -
  have h: "hat_unit \<in> set (units shop)" "sku hat_unit = ''HAT''" "num_in_stock hat_unit = 5"
    by (simp_all add: shop_defs)
  show ?thesis
    using CartUnitSerializer_validation
        [of shop ascii_space "Some ''HAT''" "Some 1" "'' HAT ''" 5]
      CartUnitSerializer_validation
        [of shop ascii_space "Some ''HAT''" "Some 1" "''HAT''" 6]
      CartUnitSerializer_validation
        [of shop ascii_space "Some ''HAT''" "Some 1" "''SCARF''" 1]
      CartUnitSerializer_validation
        [of shop ascii_space "Some ''HAT''" "Some 1" "''   ''" 0]
    by (simp add: shop_skus h cart_examples strip_examples)
qed

text \<open>
  The claim as stated fails both ways. No unit of the shop has the SKU \<open>HAT\<close>
  between two spaces, and validation of that SKU succeeds, for the hat. In the shop
  with a unit of empty SKU, the empty SKU is that of a unit in stock, and validation
  fails.
\<close>

theorem CartUnitSerializer_validation_counterexample:
  "'' HAT '' \<notin> set (map sku (units shop))
   \<and> CartUnitSerializer_run_validation ascii_space shop (Some '' HAT '') (Some 1) =
       Inr \<lparr>cart_sku = ''HAT'', cart_quantity = 1\<rparr>
   \<and> distinct (map sku (units shop_blank_sku))
   \<and> blank_unit \<in> set (units shop_blank_sku) \<and> sku blank_unit = []
   \<and> 1 \<le> num_in_stock blank_unit
   \<and> CartUnitSerializer_run_validation ascii_space shop_blank_sku (Some []) (Some 1) =
       Inl (FieldErrors [(''sku'', ''This field may not be blank.'')])"
proof -
  have "map sku (units shop_blank_sku) = [''SH-RED'', ''SH-BLUE'', ''HAT'', ''BAG'', []]"
    by (simp add: shop_blank_sku_def blank_unit_def shop_defs)
  moreover have "blank_unit \<in> set (units shop_blank_sku)" by (simp add: shop_blank_sku_def)
  moreover have "sku blank_unit = []" "num_in_stock blank_unit = 5" by (simp_all add: blank_unit_def)
  ultimately show ?thesis by (simp add: shop_skus cart_examples)
qed

subsection \<open>The route table\<close>



end
